theory Spec2Isabelle
  imports Main "HOL-Library.Word"
begin

unbundle bit_operations_syntax

section \<open>The DNS query interceptor: data model\<close>

text \<open>
  The program (\<^verbatim>\<open>interceptor.go\<close>) reads frames from a live capture, derives a
  query record and a response record from each frame, chooses one of them and hands
  it to every registered exporter. The embedding follows the source function by
  function. A Go pointer that may be \<^verbatim>\<open>nil\<close> is an \<open>option\<close>, a byte slice that may
  be \<^verbatim>\<open>nil\<close> is an \<open>option\<close> of a byte list, \<^verbatim>\<open>uint16\<close> is \<open>16 word\<close>, and a
  run-time panic or a call of \<^verbatim>\<open>os.Exit\<close> is the left summand of a sum type.
\<close>

subsection \<open>Slices and addresses\<close>

type_synonym byte = "8 word"

text \<open>\<^verbatim>\<open>net.IP\<close> and \<^verbatim>\<open>net.IPMask\<close> are byte slices; \<open>None\<close> is the \<^verbatim>\<open>nil\<close> slice.\<close>

type_synonym net_IP = "byte list option"

text \<open>\<^verbatim>\<open>len(s)\<close>: the \<^verbatim>\<open>nil\<close> slice has length 0.\<close>

definition len :: "'a list option \<Rightarrow> nat" where
  "len s = (case s of None \<Rightarrow> 0 | Some xs \<Rightarrow> length xs)"

text \<open>The elements of a slice; the \<^verbatim>\<open>nil\<close> slice has none.\<close>

definition elems :: "'a list option \<Rightarrow> 'a list" where
  "elems s = (case s of None \<Rightarrow> [] | Some xs \<Rightarrow> xs)"

record IPNet =
  IP :: net_IP
  Mask :: net_IP

subsection \<open>The layers of a captured frame\<close>

text \<open>
  A \<^verbatim>\<open>gopacket.Packet\<close> is seen by the program only through \<^verbatim>\<open>ErrorLayer()\<close> and
  \<^verbatim>\<open>Layer(t)\<close> for four layer types, each of which returns a layer or \<^verbatim>\<open>nil\<close>. The
  records below keep the fields of each layer that the program reads.
\<close>

record IPv6 =
  SrcIP :: net_IP
  DstIP :: net_IP

record UDP =
  SrcPort :: "16 word"
  DstPort :: "16 word"

record TCP =
  SrcPort :: "16 word"
  DstPort :: "16 word"

record DNSQuestion =
  Name :: string
  Type :: "16 word"

record DNSResourceRecord =
  IP :: net_IP

record DNS =
  Questions :: "DNSQuestion list"
  Answers :: "DNSResourceRecord list"

record Packet =
  ErrorLayer :: "string option"
  LayerTypeIPv6 :: "IPv6 option"
  LayerTypeUDP :: "UDP option"
  LayerTypeTCP :: "TCP option"
  LayerTypeDNS :: "DNS option"

subsection \<open>The records of the program\<close>

text \<open>\<^verbatim>\<open>time.Time\<close> is a point on a clock; the model reads the clock as a number.\<close>

type_synonym Time = nat

record InterceptorLogCommon =
  Timestamp :: Time
  SrcIP :: net_IP
  DstIP :: net_IP
  SrcPort :: "16 word"
  DstPort :: "16 word"
  TransTCP :: bool

text \<open>
  Go embeds \<^verbatim>\<open>InterceptorLogCommon\<close> in \<^verbatim>\<open>QueryLog\<close> and \<^verbatim>\<open>QueryLog\<close> in
  \<^verbatim>\<open>ResponseLog\<close>; an embedded struct is a field named after its type.
\<close>

record QueryLog =
  InterceptorLogCommon :: InterceptorLogCommon
  QString :: string
  QType :: string
  hasAnswer :: bool

record ResponseLog =
  QueryLog :: QueryLog
  AnsIP :: net_IP
  IPv6Ready :: bool

text \<open>
  A value of the interface \<^verbatim>\<open>InterceptorLog\<close>: the \<^verbatim>\<open>nil\<close> interface, or a pointer
  of one of the two implementing types, which may itself be \<^verbatim>\<open>nil\<close>.
\<close>

datatype InterceptorLog =
  NilInterface
  | QueryLogPtr "QueryLog option"
  | ResponseLogPtr "ResponseLog option"

text \<open>How the process stops early: a nil pointer dereference, or \<^verbatim>\<open>os.Exit(code)\<close>.\<close>

datatype abort = NilPointerDereference | Exit int

section \<open>The operations\<close>

subsection \<open>Containment in a network (Go's package \<^verbatim>\<open>net\<close>)\<close>

text \<open>
  \<^verbatim>\<open>newResponseLog\<close> calls \<^verbatim>\<open>net.ParseCIDR\<close> and \<^verbatim>\<open>(*IPNet).Contains\<close> of Go's
  standard library. These functions are not part of the repository; they are written
  here after the library's source, statement by statement, so that a statement about
  \<^verbatim>\<open>IPv6Ready\<close> is a statement about what the program computes.
\<close>

text \<open>\<^verbatim>\<open>isZeros(p)\<close>: every byte of \<open>p\<close> is zero.\<close>

definition isZeros :: "byte list \<Rightarrow> bool" where
  "isZeros p = list_all (\<lambda>b. b = 0) p"

text \<open>
  \<^verbatim>\<open>ip.To4()\<close>: a 4-byte address is returned as it is, a 16-byte IPv4-mapped address
  (ten zero bytes, then \<^verbatim>\<open>ff ff\<close>) gives its last four bytes, anything else \<^verbatim>\<open>nil\<close>.
\<close>

definition To4 :: "net_IP \<Rightarrow> net_IP" where
  "To4 ip =
     (if len ip = 4 then ip
      else if len ip = 16 \<and> isZeros (take 10 (elems ip))
              \<and> elems ip ! 10 = 0xff \<and> elems ip ! 11 = 0xff
      then Some (take 4 (drop 12 (elems ip)))
      else None)"

text \<open>\<^verbatim>\<open>networkNumberAndMask(n)\<close>: the network number and mask of \<open>n\<close>, of equal length,
  or two \<^verbatim>\<open>nil\<close> slices when \<open>n\<close> is malformed.\<close>

definition networkNumberAndMask :: "IPNet \<Rightarrow> net_IP \<times> net_IP" where
  "networkNumberAndMask n =
     (let ip4 = To4 (IPNet.IP n) in
      if ip4 = None \<and> len (IPNet.IP n) \<noteq> 16 then (None, None)
      else
        (let ip = (if ip4 = None then IPNet.IP n else ip4);
             m = Mask n
         in if len m = 4 then (if len ip \<noteq> 4 then (None, None) else (ip, m))
            else if len m = 16
            then (if len ip = 4 then (ip, Some (drop 12 (elems m))) else (ip, m))
            else (None, None)))"

text \<open>
  The loop of \<^verbatim>\<open>Contains\<close>:
  \<^verbatim>\<open>for i := 0; i < l; i++ { if nn[i]&m[i] != ip[i]&m[i] { return false } }; return true\<close>.
\<close>

function Contains_loop :: "byte list \<Rightarrow> byte list \<Rightarrow> byte list \<Rightarrow> nat \<Rightarrow> nat \<Rightarrow> bool" where
  "Contains_loop nn m ip i l =
     (if i < l
      then (if (nn ! i) AND (m ! i) \<noteq> (ip ! i) AND (m ! i) then False
            else Contains_loop nn m ip (i + 1) l)
      else True)"
  by pat_completeness auto
termination
  by (relation "measure (\<lambda>(nn, m, ip, i, l). l - i)") auto

declare Contains_loop.simps [simp del]

text \<open>\<^verbatim>\<open>n.Contains(ip)\<close>.\<close>

definition Contains :: "IPNet \<Rightarrow> net_IP \<Rightarrow> bool" where
  "Contains n ip =
     (case networkNumberAndMask n of
        (nn, m) \<Rightarrow>
          (let x = To4 ip;
               ip = (if x \<noteq> None then x else ip);
               l = len ip
           in if l \<noteq> len nn then False
              else Contains_loop (elems nn) (elems m) (elems ip) 0 l))"

text \<open>
  The network returned by \<^verbatim>\<open>net.ParseCIDR("64:ff9b::/96")\<close>: the 16-byte address
  \<^verbatim>\<open>64:ff9b::\<close> and the 16-byte mask of 96 one bits.
\<close>

definition nat64_prefix :: IPNet where
  "nat64_prefix =
     \<lparr> IPNet.IP = Some [0, 0x64, 0xff, 0x9b, 0, 0, 0, 0, 0, 0, 0, 0, 0, 0, 0, 0],
       Mask = Some [0xff, 0xff, 0xff, 0xff, 0xff, 0xff, 0xff, 0xff,
                    0xff, 0xff, 0xff, 0xff, 0, 0, 0, 0] \<rparr>"

subsection \<open>From a frame to its records\<close>

text \<open>
  \<^verbatim>\<open>newInterceptorLogCommon\<close>. The clock reading \<^verbatim>\<open>time.Now()\<close> is the argument
  \<open>now\<close>. The line written to standard error on a decode error is a diagnostic only
  and is left out. The result is the pointer returned: \<open>None\<close> is \<^verbatim>\<open>nil\<close>.
\<close>

definition newInterceptorLogCommon :: "Time \<Rightarrow> Packet \<Rightarrow> InterceptorLogCommon option" where
  "newInterceptorLogCommon now packet =
     (let c = \<lparr> Timestamp = now, SrcIP = None, DstIP = None,
                 SrcPort = 0, DstPort = 0, TransTCP = False \<rparr>
      in if ErrorLayer packet \<noteq> None then None
         else
           (case LayerTypeIPv6 packet of
              None \<Rightarrow> None
            | Some ip6 \<Rightarrow>
                (let c = c\<lparr> SrcIP := IPv6.SrcIP ip6, DstIP := IPv6.DstIP ip6 \<rparr>;
                     c = (case LayerTypeUDP packet of
                            None \<Rightarrow> c
                          | Some udp \<Rightarrow>
                              c\<lparr> SrcPort := UDP.SrcPort udp, DstPort := UDP.DstPort udp \<rparr>);
                     c = (case LayerTypeTCP packet of
                            None \<Rightarrow> c
                          | Some tcp \<Rightarrow>
                              c\<lparr> SrcPort := TCP.SrcPort tcp, DstPort := TCP.DstPort tcp,
                                 TransTCP := True \<rparr>)
                 in Some c)))"

text \<open>
  \<^verbatim>\<open>newQueryLog\<close>. The second statement of the function, \<^verbatim>\<open>q.InterceptorLogCommon = *c\<close>,
  dereferences \<open>c\<close> without a test: with \<open>c = nil\<close> the Go run time panics. The name of
  a record type, \<^verbatim>\<open>question.Type.String()\<close>, is computed by the packet library; the
  function \<open>String\<close> that computes it is a parameter of the model.
\<close>

definition newQueryLog ::
  "(16 word \<Rightarrow> string) \<Rightarrow> Packet \<Rightarrow> InterceptorLogCommon option \<Rightarrow> abort + QueryLog option" where
  "newQueryLog String packet c =
     (case c of
        None \<Rightarrow> Inl NilPointerDereference
      | Some c' \<Rightarrow>
          (let q = \<lparr> InterceptorLogCommon = c', QString = [], QType = [], hasAnswer = False \<rparr>
           in case LayerTypeDNS packet of
                None \<Rightarrow> Inr None
              | Some dns \<Rightarrow>
                  if length (Questions dns) > 0
                  then (let question = Questions dns ! 0;
                            q = q\<lparr> QString := Name question \<rparr>;
                            q = q\<lparr> QType := String (Type question) \<rparr>;
                            q = q\<lparr> hasAnswer := length (Answers dns) > 0 \<rparr>
                        in Inr (Some q))
                  else Inr None))"

text \<open>
  \<^verbatim>\<open>newResponseLog\<close>. The assignment \<^verbatim>\<open>r.hasAnswer = ...\<close> writes the field of the
  embedded \<^verbatim>\<open>QueryLog\<close>.
\<close>

definition newResponseLog :: "Packet \<Rightarrow> QueryLog option \<Rightarrow> ResponseLog option" where
  "newResponseLog packet q =
     (case q of
        None \<Rightarrow> None
      | Some q' \<Rightarrow>
          (let r = \<lparr> QueryLog = q', AnsIP = None, IPv6Ready = False \<rparr>
           in case LayerTypeDNS packet of
                None \<Rightarrow> None
              | Some dns \<Rightarrow>
                  if length (Answers dns) > 0
                  then (let answer = Answers dns ! 0;
                            r = r\<lparr> AnsIP := IP answer \<rparr>;
                            r = r\<lparr> IPv6Ready := \<not> Contains nat64_prefix (AnsIP r) \<rparr>;
                            r = r\<lparr> QueryLog := (QueryLog r)\<lparr> hasAnswer := IP answer \<noteq> None \<rparr> \<rparr>
                        in Some r)
                  else None))"

subsection \<open>The exporters\<close>

text \<open>
  What the process has done so far: the counter \<^verbatim>\<open>errCounter\<close> (a global \<^verbatim>\<open>uint16\<close>),
  the number of \<^verbatim>\<open>INSERT\<close> statements issued, and the deliveries made, in order. A
  delivery is a record printed on standard output, or a record sent to the database
  together with the outcome of the \<^verbatim>\<open>INSERT\<close>.
\<close>

datatype event = Println InterceptorLog | Insert InterceptorLog bool

record World =
  errCounter :: "16 word"
  inserts :: nat
  deliveries :: "event list"

text \<open>
  \<^verbatim>\<open>stdExporter\<close>. It prints \<^verbatim>\<open>qr.Colorize()\<close> unless \<open>qr\<close> is the \<^verbatim>\<open>nil\<close> interface.
  Both \<^verbatim>\<open>Colorize\<close> methods read a field of their receiver first, so a \<^verbatim>\<open>nil\<close>
  pointer inside the interface panics. The text of the line is not modelled: the
  delivery records which record was printed.
\<close>

fun stdExporter :: "InterceptorLog \<Rightarrow> World \<Rightarrow> abort + World" where
  "stdExporter NilInterface w = Inr w"
| "stdExporter (QueryLogPtr None) w = Inl NilPointerDereference"
| "stdExporter (ResponseLogPtr None) w = Inl NilPointerDereference"
| "stdExporter qr w = Inr (w\<lparr> deliveries := deliveries w @ [Println qr] \<rparr>)"

text \<open>
  The exporter closure returned by \<^verbatim>\<open>newDBExporter\<close>. The database is outside the
  program: \<open>db k\<close> tells whether the \<open>k\<close>-th \<^verbatim>\<open>INSERT\<close> of the run succeeds.
\<close>

definition dbExporter :: "(nat \<Rightarrow> bool) \<Rightarrow> InterceptorLog \<Rightarrow> World \<Rightarrow> abort + World" where
  "dbExporter db qr w =
     (let ok = db (inserts w);
          w = w\<lparr> inserts := inserts w + 1, deliveries := deliveries w @ [Insert qr ok] \<rparr>
      in if \<not> ok
         then (let w = w\<lparr> errCounter := errCounter w + 1 \<rparr>
               in if errCounter w > 5 then Inl (Exit 1) else Inr w)
         else Inr (w\<lparr> errCounter := 0 \<rparr>))"

text \<open>The two function values that \<^verbatim>\<open>main\<close> can put into the slice \<^verbatim>\<open>exporters\<close>.\<close>

datatype exporter = StdExporter | DBExporter

fun call :: "(nat \<Rightarrow> bool) \<Rightarrow> exporter \<Rightarrow> InterceptorLog \<Rightarrow> World \<Rightarrow> abort + World" where
  "call db StdExporter qr w = stdExporter qr w"
| "call db DBExporter qr w = dbExporter db qr w"

text \<open>
  The slice built by \<^verbatim>\<open>main\<close>: the console exporter unless \<^verbatim>\<open>quietFlag\<close>, then the
  database exporter when all four database options are given.
\<close>

definition main_exporters :: "bool \<Rightarrow> bool \<Rightarrow> exporter list" where
  "main_exporters quietFlag use_psql =
     (if \<not> quietFlag then [StdExporter] else []) @ (if use_psql then [DBExporter] else [])"

text \<open>\<^verbatim>\<open>for _, exporter := range exporters { exporter(log) }\<close>\<close>

fun export :: "(nat \<Rightarrow> bool) \<Rightarrow> exporter list \<Rightarrow> InterceptorLog \<Rightarrow> World \<Rightarrow> abort + World" where
  "export db [] log w = Inr w"
| "export db (e # es) log w =
     (case call db e log w of
        Inl a \<Rightarrow> Inl a
      | Inr w' \<Rightarrow> export db es log w')"

subsection \<open>The per-frame loop of \<^verbatim>\<open>interceptor\<close>\<close>

text \<open>The three conditions computed for each frame (lines 242 to 244).\<close>

definition is_valid_query :: "InterceptorLogCommon \<Rightarrow> QueryLog option \<Rightarrow> bool" where
  "is_valid_query c q = (DstPort c = 53 \<and> q \<noteq> None)"

definition is_valid_response :: "InterceptorLogCommon \<Rightarrow> ResponseLog option \<Rightarrow> bool" where
  "is_valid_response c r = (SrcPort c = 53 \<and> r \<noteq> None)"

text \<open>\<^verbatim>\<open>&&\<close> evaluates \<^verbatim>\<open>r.QType\<close> only when \<open>r\<close> is not \<^verbatim>\<open>nil\<close>.\<close>

definition has_aaaa_answer :: "InterceptorLogCommon \<Rightarrow> ResponseLog option \<Rightarrow> bool" where
  "has_aaaa_answer c r =
     (case r of
        None \<Rightarrow> False
      | Some r' \<Rightarrow>
          is_valid_response c r \<and> QType (QueryLog r') = ''AAAA'' \<and> hasAnswer (QueryLog r'))"

text \<open>
  The \<^verbatim>\<open>switch\<close>: \<open>None\<close> is \<^verbatim>\<open>continue\<close>, otherwise the value of \<^verbatim>\<open>log\<close> handed to
  the exporters.
\<close>

definition select_log ::
  "bool \<Rightarrow> InterceptorLogCommon \<Rightarrow> QueryLog option \<Rightarrow> ResponseLog option \<Rightarrow> InterceptorLog option" where
  "select_log sniffFlag c q r =
     (let log = QueryLogPtr q
      in if \<not> is_valid_query c q \<and> \<not> has_aaaa_answer c r then None
         else if sniffFlag \<and> has_aaaa_answer c r then Some (ResponseLogPtr r)
         else Some log)"

text \<open>
  One turn of the loop up to the \<^verbatim>\<open>switch\<close>. \<^verbatim>\<open>newQueryLog\<close> is called with whatever
  \<^verbatim>\<open>newInterceptorLogCommon\<close> returned, and \<^verbatim>\<open>c.DstPort\<close> is read without a test.
\<close>

definition interceptor_frame ::
  "(16 word \<Rightarrow> string) \<Rightarrow> bool \<Rightarrow> Time \<Rightarrow> Packet \<Rightarrow> abort + InterceptorLog option" where
  "interceptor_frame String sniffFlag now packet =
     (let c = newInterceptorLogCommon now packet
      in case newQueryLog String packet c of
           Inl a \<Rightarrow> Inl a
         | Inr q \<Rightarrow>
             (let r = newResponseLog packet q
              in case c of
                   None \<Rightarrow> Inl NilPointerDereference
                 | Some c' \<Rightarrow> Inr (select_log sniffFlag c' q r)))"

text \<open>
  The loop over the frames of the capture, each with the clock reading taken when it
  is processed. The capture is taken as opened: the two statements before the loop
  only open it and install the filter. A panic or an exit ends the process: the
  frames left are not read.
\<close>

fun interceptor ::
  "(16 word \<Rightarrow> string) \<Rightarrow> bool \<Rightarrow> (nat \<Rightarrow> bool) \<Rightarrow> exporter list \<Rightarrow> (Time \<times> Packet) list
     \<Rightarrow> World \<Rightarrow> abort + World" where
  "interceptor String sniffFlag db exporters [] w = Inr w"
| "interceptor String sniffFlag db exporters ((now, packet) # packets) w =
     (case interceptor_frame String sniffFlag now packet of
        Inl a \<Rightarrow> Inl a
      | Inr None \<Rightarrow> interceptor String sniffFlag db exporters packets w
      | Inr (Some log) \<Rightarrow>
          (case export db exporters log w of
             Inl a \<Rightarrow> Inl a
           | Inr w' \<Rightarrow> interceptor String sniffFlag db exporters packets w'))"

text \<open>The state of a process that has just started.\<close>

definition start :: World where
  "start = \<lparr> errCounter = 0, inserts = 0, deliveries = [] \<rparr>"

text \<open>
  The calls of the database exporter that the loop makes for a sequence of emitted
  records when it is the only exporter registered: one \<^verbatim>\<open>INSERT\<close> after the other.
\<close>

fun writes :: "(nat \<Rightarrow> bool) \<Rightarrow> InterceptorLog list \<Rightarrow> World \<Rightarrow> abort + World" where
  "writes db [] w = Inr w"
| "writes db (log # logs) w =
     (case dbExporter db log w of
        Inl a \<Rightarrow> Inl a
      | Inr w' \<Rightarrow> writes db logs w')"

text \<open>The sink that made a delivery, and the record delivered.\<close>

fun sink_of :: "event \<Rightarrow> exporter" where
  "sink_of (Println qr) = StdExporter"
| "sink_of (Insert qr ok) = DBExporter"

fun record_of :: "event \<Rightarrow> InterceptorLog" where
  "record_of (Println qr) = qr"
| "record_of (Insert qr ok) = qr"

text \<open>The interface value holds a pointer that is not \<^verbatim>\<open>nil\<close>.\<close>

fun non_nil :: "InterceptorLog \<Rightarrow> bool" where
  "non_nil (QueryLogPtr (Some q)) = True"
| "non_nil (ResponseLogPtr (Some r)) = True"
| "non_nil _ = False"

section \<open>The words of the specification\<close>

text \<open>
  ``The answer address falls inside the NAT64 synthesis prefix \<^verbatim>\<open>64:ff9b::/96\<close>'': the
  address is an IPv6 address, 128 bits long, and its leading 96 bits are those of
  \<^verbatim>\<open>64:ff9b::\<close>. This definition follows the specification, not the program; the
  program's test is \<^const>\<open>Contains\<close>.
\<close>

definition in_nat64_synthesis_prefix :: "net_IP \<Rightarrow> bool" where
  "in_nat64_synthesis_prefix ip =
     (case ip of
        None \<Rightarrow> False
      | Some bs \<Rightarrow>
          length bs = 16 \<and> take 12 bs = [0, 0x64, 0xff, 0x9b, 0, 0, 0, 0, 0, 0, 0, 0])"

section \<open>Frames used as examples\<close>

text \<open>A type-name function that knows the two record types the program colours.\<close>

definition type_name :: "16 word \<Rightarrow> string" where
  "type_name t = (if t = 1 then ''A'' else if t = 28 then ''AAAA'' else ''Unknown'')"

text \<open>The addresses \<^verbatim>\<open>2001:db8::10\<close>, \<^verbatim>\<open>2001:db8::53\<close> and \<^verbatim>\<open>2001:db8::1\<close>.\<close>

definition host_addr :: "byte list" where
  "host_addr = [0x20, 0x01, 0x0d, 0xb8, 0, 0, 0, 0, 0, 0, 0, 0, 0, 0, 0, 0x10]"

definition resolver_addr :: "byte list" where
  "resolver_addr = [0x20, 0x01, 0x0d, 0xb8, 0, 0, 0, 0, 0, 0, 0, 0, 0, 0, 0, 0x53]"

definition native_addr :: "byte list" where
  "native_addr = [0x20, 0x01, 0x0d, 0xb8, 0, 0, 0, 0, 0, 0, 0, 0, 0, 0, 0, 0x01]"

text \<open>
  \<^verbatim>\<open>64:ff9b::\<close>, the lowest address of the NAT64 prefix; \<^verbatim>\<open>64:ff9b::c000:201\<close>, the
  synthesised form of 192.0.2.1; and \<^verbatim>\<open>64:ff9a::\<close>, just below the prefix.
\<close>

definition addr_64_ff9b :: "byte list" where
  "addr_64_ff9b = [0, 0x64, 0xff, 0x9b, 0, 0, 0, 0, 0, 0, 0, 0, 0, 0, 0, 0]"

definition synthesised_addr :: "byte list" where
  "synthesised_addr = [0, 0x64, 0xff, 0x9b, 0, 0, 0, 0, 0, 0, 0, 0, 0xc0, 0, 0x02, 0x01]"

definition addr_64_ff9a :: "byte list" where
  "addr_64_ff9a = [0, 0x64, 0xff, 0x9a, 0, 0, 0, 0, 0, 0, 0, 0, 0, 0, 0, 0]"

text \<open>A DNS message over UDP over IPv6, and the same message over UDP over IPv4.\<close>

definition udp6_frame :: "16 word \<Rightarrow> 16 word \<Rightarrow> DNS \<Rightarrow> Packet" where
  "udp6_frame sport dport dns =
     \<lparr> ErrorLayer = None,
       LayerTypeIPv6 = Some \<lparr> IPv6.SrcIP = Some host_addr, IPv6.DstIP = Some resolver_addr \<rparr>,
       LayerTypeUDP = Some \<lparr> UDP.SrcPort = sport, UDP.DstPort = dport \<rparr>,
       LayerTypeTCP = None,
       LayerTypeDNS = Some dns \<rparr>"

definition udp4_frame :: "16 word \<Rightarrow> 16 word \<Rightarrow> DNS \<Rightarrow> Packet" where
  "udp4_frame sport dport dns =
     \<lparr> ErrorLayer = None,
       LayerTypeIPv6 = None,
       LayerTypeUDP = Some \<lparr> UDP.SrcPort = sport, UDP.DstPort = dport \<rparr>,
       LayerTypeTCP = None,
       LayerTypeDNS = Some dns \<rparr>"

text \<open>A question for the AAAA records of a name; a question for its A records.\<close>

definition question_AAAA :: DNSQuestion where
  "question_AAAA = \<lparr> Name = ''example.com'', Type = 28 \<rparr>"

definition question_A :: DNSQuestion where
  "question_A = \<lparr> Name = ''example.org'', Type = 1 \<rparr>"

text \<open>A query: one question, no answer. A response: the question and its answers.\<close>

definition query_msg :: DNS where
  "query_msg = \<lparr> Questions = [question_AAAA], Answers = [] \<rparr>"

definition response_msg :: "net_IP list \<Rightarrow> DNS" where
  "response_msg ips = \<lparr> Questions = [question_AAAA], Answers = map (\<lambda>ip. \<lparr> IP = ip \<rparr>) ips \<rparr>"

definition two_question_msg :: DNS where
  "two_question_msg = \<lparr> Questions = [question_AAAA, question_A], Answers = [] \<rparr>"

definition no_question_msg :: DNS where
  "no_question_msg = \<lparr> Questions = [], Answers = [] \<rparr>"

text \<open>The records the program derives from these frames when the clock reads 0.\<close>

definition meta_of :: "16 word \<Rightarrow> 16 word \<Rightarrow> InterceptorLogCommon" where
  "meta_of sport dport =
     \<lparr> Timestamp = 0, SrcIP = Some host_addr, DstIP = Some resolver_addr,
       SrcPort = sport, DstPort = dport, TransTCP = False \<rparr>"

definition query_of :: "16 word \<Rightarrow> 16 word \<Rightarrow> bool \<Rightarrow> QueryLog" where
  "query_of sport dport ans =
     \<lparr> InterceptorLogCommon = meta_of sport dport, QString = ''example.com'',
       QType = ''AAAA'', hasAnswer = ans \<rparr>"

definition response_of :: "16 word \<Rightarrow> 16 word \<Rightarrow> net_IP \<Rightarrow> bool \<Rightarrow> ResponseLog" where
  "response_of sport dport ip ready =
     \<lparr> QueryLog = query_of sport dport (ip \<noteq> None), AnsIP = ip, IPv6Ready = ready \<rparr>"

text \<open>A response to a question for A records, with the IPv4 answer 192.0.2.1.\<close>

definition response_A_msg :: DNS where
  "response_A_msg = \<lparr> Questions = [question_A], Answers = [\<lparr> IP = Some [192, 0, 2, 1] \<rparr>] \<rparr>"

text \<open>The query view of the example query frame, as handed to the exporters.\<close>

definition query_record :: InterceptorLog where
  "query_record = QueryLogPtr (Some (query_of 40000 53 False))"

lemmas example_defs =
  udp6_frame_def udp4_frame_def query_msg_def response_msg_def question_AAAA_def
  question_A_def type_name_def two_question_msg_def no_question_msg_def
  meta_of_def query_of_def response_of_def
  host_addr_def resolver_addr_def native_addr_def
  addr_64_ff9b_def addr_64_ff9a_def synthesised_addr_def

section \<open>Properties of the operations\<close>

subsection \<open>The two record constructors, case by case\<close>

lemma newQueryLog_Some:
  "newQueryLog String p (Some c) =
     (case LayerTypeDNS p of
        None \<Rightarrow> Inr None
      | Some dns \<Rightarrow>
          (case Questions dns of
             [] \<Rightarrow> Inr None
           | qn # qs \<Rightarrow>
               Inr (Some \<lparr> InterceptorLogCommon = c, QString = Name qn,
                           QType = String (Type qn), hasAnswer = (Answers dns \<noteq> []) \<rparr>)))"
  by (simp add: newQueryLog_def Let_def split: option.splits list.splits)

lemma newQueryLog_Some_Inr: "\<exists>q. newQueryLog String p (Some c) = Inr q"
  by (simp add: newQueryLog_Some split: option.splits list.splits)

lemma newResponseLog_Some:
  "newResponseLog p (Some q) =
     (case LayerTypeDNS p of
        None \<Rightarrow> None
      | Some dns \<Rightarrow>
          (case Answers dns of
             [] \<Rightarrow> None
           | a # as \<Rightarrow>
               Some \<lparr> QueryLog = q\<lparr> hasAnswer := IP a \<noteq> None \<rparr>, AnsIP = IP a,
                      IPv6Ready = (\<not> Contains nat64_prefix (IP a)) \<rparr>))"
  by (simp add: newResponseLog_def Let_def split: option.splits list.splits)

lemma newResponseLog_None [simp]: "newResponseLog p None = None"
  by (simp add: newResponseLog_def)

lemma newInterceptorLogCommon_None_iff:
  "(newInterceptorLogCommon now p = None) = (ErrorLayer p \<noteq> None \<or> LayerTypeIPv6 p = None)"
  by (simp add: newInterceptorLogCommon_def Let_def split: option.splits)

subsection \<open>One turn of the loop\<close>

lemma interceptor_frame_Some:
  assumes "newInterceptorLogCommon now p = Some c"
  shows "interceptor_frame String sniffFlag now p =
           (case newQueryLog String p (Some c) of
              Inl a \<Rightarrow> Inl a
            | Inr q \<Rightarrow> Inr (select_log sniffFlag c q (newResponseLog p q)))"
  by (simp add: interceptor_frame_def assms Let_def split: sum.splits)

lemma interceptor_frame_None:
  assumes "newInterceptorLogCommon now p = None"
  shows "interceptor_frame String sniffFlag now p = Inl NilPointerDereference"
  by (simp add: interceptor_frame_def assms newQueryLog_def)

text \<open>The three conditions in terms of ports, records, type and flag.\<close>

lemma is_valid_query_iff:
  "is_valid_query c q = (DstPort c = 53 \<and> (\<exists>q'. q = Some q'))"
  by (simp add: is_valid_query_def)

lemma has_aaaa_answer_iff:
  "has_aaaa_answer c r =
     (\<exists>r'. r = Some r' \<and> SrcPort c = 53 \<and> QType (QueryLog r') = ''AAAA''
         \<and> hasAnswer (QueryLog r'))"
  by (cases r) (simp_all add: has_aaaa_answer_def is_valid_response_def)

lemma select_log_ResponseLogPtr:
  "select_log sniffFlag c q r = Some (ResponseLogPtr x) \<Longrightarrow>
     x = r \<and> sniffFlag \<and> has_aaaa_answer c r"
  by (auto simp add: select_log_def Let_def split: if_splits)

lemma interceptor_frame_ResponseLogPtr:
  assumes "interceptor_frame String sniffFlag now p = Inr (Some (ResponseLogPtr x))"
  shows "\<exists>c q. newInterceptorLogCommon now p = Some c \<and> newQueryLog String p (Some c) = Inr q
           \<and> x = newResponseLog p q \<and> sniffFlag \<and> has_aaaa_answer c x"
proof (cases "newInterceptorLogCommon now p")
  case None
  with assms show ?thesis by (simp add: interceptor_frame_None)
next
  case (Some c)
  obtain q where q: "newQueryLog String p (Some c) = Inr q"
    using newQueryLog_Some_Inr by blast
  with assms Some have "select_log sniffFlag c q (newResponseLog p q) = Some (ResponseLogPtr x)"
    by (simp add: interceptor_frame_Some)
  then have "x = newResponseLog p q \<and> sniffFlag \<and> has_aaaa_answer c (newResponseLog p q)"
    by (rule select_log_ResponseLogPtr)
  with Some q show ?thesis by blast
qed

lemma interceptor_frame_cases:
  obtains (no_metadata) "newInterceptorLogCommon now p = None"
      "interceptor_frame String sniffFlag now p = Inl NilPointerDereference"
  | (metadata) c q where "newInterceptorLogCommon now p = Some c"
      "newQueryLog String p (Some c) = Inr q"
      "interceptor_frame String sniffFlag now p
         = Inr (select_log sniffFlag c q (newResponseLog p q))"
proof (cases "newInterceptorLogCommon now p")
  case None
  then show ?thesis using no_metadata interceptor_frame_None by blast
next
  case (Some c)
  obtain q where q: "newQueryLog String p (Some c) = Inr q"
    using newQueryLog_Some_Inr by blast
  with Some have "interceptor_frame String sniffFlag now p
         = Inr (select_log sniffFlag c q (newResponseLog p q))"
    by (simp add: interceptor_frame_Some)
  with Some q show ?thesis using metadata by blast
qed

lemma select_log_eq:
  "select_log sniffFlag c q r =
     (if \<not> (DstPort c = 53 \<and> (\<exists>q'. q = Some q'))
         \<and> \<not> (\<exists>r'. r = Some r' \<and> SrcPort c = 53 \<and> QType (QueryLog r') = ''AAAA''
                 \<and> hasAnswer (QueryLog r'))
      then None
      else if sniffFlag
              \<and> (\<exists>r'. r = Some r' \<and> SrcPort c = 53 \<and> QType (QueryLog r') = ''AAAA''
                    \<and> hasAnswer (QueryLog r'))
      then Some (ResponseLogPtr r)
      else Some (QueryLogPtr q))"
  by (simp only: select_log_def Let_def is_valid_query_iff has_aaaa_answer_iff)

lemma newResponseLog_Some_query:
  "newResponseLog p q = Some r \<Longrightarrow> \<exists>q'. q = Some q'"
  by (cases q) simp_all

subsection \<open>Containment in the NAT64 prefix\<close>

text \<open>The loop, one iteration at a time.\<close>

lemma Contains_loop_step:
  "i < l \<Longrightarrow> Contains_loop nn m ip i l =
     ((nn ! i) AND (m ! i) = (ip ! i) AND (m ! i) \<and> Contains_loop nn m ip (i + 1) l)"
  by (subst Contains_loop.simps) simp

lemma Contains_loop_done:
  "\<not> i < l \<Longrightarrow> Contains_loop nn m ip i l"
  by (subst Contains_loop.simps) simp

lemma byte_and_255: "(b :: byte) AND 255 = b"
proof -
  have "(255 :: byte) = - 1" by simp
  then show ?thesis by (simp only: and.right_neutral)
qed

text \<open>
  Against the network number and the mask of the prefix, the sixteen iterations compare
  the first twelve bytes and ignore the last four.
\<close>

lemma Contains_loop_nat64:
  "Contains_loop [0, 0x64, 0xff, 0x9b, 0, 0, 0, 0, 0, 0, 0, 0, 0, 0, 0, 0]
     [0xff, 0xff, 0xff, 0xff, 0xff, 0xff, 0xff, 0xff, 0xff, 0xff, 0xff, 0xff, 0, 0, 0, 0]
     [b0, b1, b2, b3, b4, b5, b6, b7, b8, b9, b10, b11, b12, b13, b14, b15] 0 16
   = (b0 = 0 \<and> b1 = 0x64 \<and> b2 = 0xff \<and> b3 = 0x9b \<and> b4 = 0 \<and> b5 = 0 \<and> b6 = 0
      \<and> b7 = 0 \<and> b8 = 0 \<and> b9 = 0 \<and> b10 = 0 \<and> b11 = 0)"
  by (simp add: Contains_loop_step Contains_loop_done byte_and_255
        eq_commute [of 0] eq_commute [of "numeral n" for n])

lemma networkNumberAndMask_nat64:
  "networkNumberAndMask nat64_prefix = (IPNet.IP nat64_prefix, Mask nat64_prefix)"
  by (simp add: networkNumberAndMask_def nat64_prefix_def To4_def len_def elems_def isZeros_def)

lemma Contains_nat64_nil: "\<not> Contains nat64_prefix None"
  unfolding Contains_def networkNumberAndMask_nat64
  by (simp add: nat64_prefix_def To4_def len_def)

lemma sixteen_bytes:
  assumes "length (bs :: 'a list) = 16"
  obtains b0 b1 b2 b3 b4 b5 b6 b7 b8 b9 b10 b11 b12 b13 b14 b15 where
    "bs = [b0, b1, b2, b3, b4, b5, b6, b7, b8, b9, b10, b11, b12, b13, b14, b15]"
  using assms by (auto simp: length_Suc_conv eval_nat_numeral)

lemma Contains_nat64_16:
  assumes "length bs = 16"
  shows "Contains nat64_prefix (Some bs) =
           (take 12 bs = [0, 0x64, 0xff, 0x9b, 0, 0, 0, 0, 0, 0, 0, 0])"
proof -
  from assms obtain b0 b1 b2 b3 b4 b5 b6 b7 b8 b9 b10 b11 b12 b13 b14 b15 where
    bs: "bs = [b0, b1, b2, b3, b4, b5, b6, b7, b8, b9, b10, b11, b12, b13, b14, b15]"
    by (rule sixteen_bytes)
  have loop: "Contains_loop (elems (IPNet.IP nat64_prefix)) (elems (Mask nat64_prefix)) bs 0 16
      = (take 12 bs = [0, 0x64, 0xff, 0x9b, 0, 0, 0, 0, 0, 0, 0, 0])"
    by (simp add: bs nat64_prefix_def elems_def Contains_loop_nat64)
  show ?thesis
  proof (cases "To4 (Some bs) = None")
    case True
    then show ?thesis
      unfolding Contains_def networkNumberAndMask_nat64
      using loop assms by (simp add: len_def elems_def nat64_prefix_def)
  next
    case False
    then have "bs ! 10 = 0xff"
      using assms by (simp add: To4_def len_def elems_def split: if_splits)
    then have "take 12 bs \<noteq> [0, 0x64, 0xff, 0x9b, 0, 0, 0, 0, 0, 0, 0, 0]"
      by (auto simp add: bs)
    moreover have "len (To4 (Some bs)) = 4"
      using False assms by (simp add: To4_def len_def elems_def split: if_splits)
    ultimately show ?thesis
      unfolding Contains_def networkNumberAndMask_nat64
      using False by (simp add: len_def nat64_prefix_def)
  qed
qed

text \<open>The address \<^verbatim>\<open>2001:db8::1\<close> is not contained.\<close>

lemma native_addr_outside: "\<not> Contains nat64_prefix (Some native_addr)"
  by (simp add: Contains_nat64_16 native_addr_def)

text \<open>The program's test and the specification's words agree on every slice.\<close>

lemma Contains_nat64:
  "Contains nat64_prefix ip = in_nat64_synthesis_prefix ip"
proof (cases ip)
  case None
  then show ?thesis
    by (simp add: Contains_nat64_nil in_nat64_synthesis_prefix_def)
next
  case (Some bs)
  show ?thesis
  proof (cases "length bs = 16")
    case True
    then show ?thesis
      by (simp add: Some Contains_nat64_16 in_nat64_synthesis_prefix_def)
  next
    case False
    then show ?thesis
      unfolding Contains_def networkNumberAndMask_nat64
      by (simp add: Some in_nat64_synthesis_prefix_def nat64_prefix_def To4_def len_def
            elems_def Let_def)
  qed
qed

subsection \<open>The exporters\<close>

lemma unat_errCounter_Suc:
  "unat (c :: 16 word) < 5 \<Longrightarrow> unat (c + 1) = unat c + 1"
  by (simp add: unat_word_ariths)

lemma unat_eq_5: "unat (c :: 16 word) = 5 \<Longrightarrow> c = 5"
  by (simp add: word_unat_eq_iff)

lemma dbExporter_success:
  "db (inserts w) \<Longrightarrow>
     dbExporter db qr w =
       Inr (w\<lparr> inserts := inserts w + 1, deliveries := deliveries w @ [Insert qr True],
              errCounter := 0 \<rparr>)"
  by (simp add: dbExporter_def Let_def)

lemma dbExporter_failure:
  assumes "\<not> db (inserts w)" and "unat (errCounter w) < 5"
  shows "dbExporter db qr w =
       Inr (w\<lparr> inserts := inserts w + 1, deliveries := deliveries w @ [Insert qr False],
              errCounter := errCounter w + 1 \<rparr>)"
proof -
  have "unat (errCounter w + 1) \<le> 5"
    using assms(2) by (simp add: unat_errCounter_Suc)
  then have "\<not> errCounter w + 1 > 5"
    by (simp add: word_less_nat_alt)
  with assms(1) show ?thesis
    by (simp add: dbExporter_def Let_def)
qed

lemma dbExporter_fatal:
  assumes "\<not> db (inserts w)" and "errCounter w = 5"
  shows "dbExporter db qr w = Inl (Exit 1)"
  using assms by (simp add: dbExporter_def Let_def)

lemma dbExporter_below_threshold:
  assumes "unat (errCounter w) < 5"
  shows "\<exists>w'. dbExporter db qr w = Inr w'
           \<and> deliveries w' = deliveries w @ [Insert qr (db (inserts w))]
           \<and> inserts w' = inserts w + 1
           \<and> unat (errCounter w') \<le> unat (errCounter w) + 1"
proof (cases "db (inserts w)")
  case True
  then show ?thesis by (simp add: dbExporter_success)
next
  case False
  with assms show ?thesis by (simp add: dbExporter_failure unat_errCounter_Suc)
qed

lemma stdExporter_non_nil:
  "non_nil log \<Longrightarrow>
     stdExporter log w = Inr (w\<lparr> deliveries := deliveries w @ [Println log] \<rparr>)"
  by (cases "(log, w)" rule: stdExporter.cases) simp_all

lemma writes_append:
  "writes db (xs @ ys) w =
     (case writes db xs w of Inl a \<Rightarrow> Inl a | Inr w' \<Rightarrow> writes db ys w')"
  by (induction xs arbitrary: w) (simp_all split: sum.splits)

text \<open>
  A run of failed \<^verbatim>\<open>INSERT\<close>s that keeps the counter at 5 or below is survived, and the
  counter has counted them.
\<close>

lemma writes_failures:
  assumes "\<forall>k<length ls. \<not> db (inserts w + k)"
    and "unat (errCounter w) + length ls \<le> 5"
  shows "\<exists>w'. writes db ls w = Inr w'
           \<and> inserts w' = inserts w + length ls
           \<and> unat (errCounter w') = unat (errCounter w) + length ls"
  using assms
proof (induction ls arbitrary: w)
  case Nil
  then show ?case by simp
next
  case (Cons l ls)
  let ?w1 = "w\<lparr> inserts := inserts w + 1, deliveries := deliveries w @ [Insert l False],
                 errCounter := errCounter w + 1 \<rparr>"
  have fail: "\<not> db (inserts w)"
    using Cons.prems(1) by auto
  have below: "unat (errCounter w) < 5"
    using Cons.prems(2) by simp
  have step: "dbExporter db l w = Inr ?w1"
    using fail below by (rule dbExporter_failure)
  have "\<forall>k<length ls. \<not> db (inserts ?w1 + k)"
  proof (intro allI impI)
    fix k assume "k < length ls"
    then have "Suc k < length (l # ls)" by simp
    with Cons.prems(1) have "\<not> db (inserts w + Suc k)" by blast
    then show "\<not> db (inserts ?w1 + k)" by simp
  qed
  moreover have "unat (errCounter ?w1) + length ls \<le> 5"
    using Cons.prems(2) below by (simp add: unat_errCounter_Suc)
  ultimately obtain w' where
    "writes db ls ?w1 = Inr w'" "inserts w' = inserts ?w1 + length ls"
    "unat (errCounter w') = unat (errCounter ?w1) + length ls"
    using Cons.IH [of ?w1] by blast
  with step below show ?case by (simp add: unat_errCounter_Suc)
qed

lemma writes_n_failures:
  assumes "length ls = n" and "\<forall>k<n. \<not> db (inserts w + k)"
    and "unat (errCounter w) + n \<le> 5"
  shows "\<exists>w'. writes db ls w = Inr w' \<and> inserts w' = inserts w + n
           \<and> unat (errCounter w') = unat (errCounter w) + n"
  using writes_failures [of ls db w] assms by blast

text \<open>
  The loop over the exporters, while the counter cannot pass 5 whatever the database
  answers: every exporter is called, in the order of the slice, with the same record.
\<close>

lemma export_below_threshold:
  assumes "non_nil log"
    and "unat (errCounter w) + length (filter (\<lambda>e. e = DBExporter) es) \<le> 5"
  shows "\<exists>w' new. export db es log w = Inr w'
           \<and> deliveries w' = deliveries w @ new
           \<and> map sink_of new = es \<and> map record_of new = map (\<lambda>e. log) es"
  using assms(2)
proof (induction es arbitrary: w)
  case Nil
  then show ?case by simp
next
  case (Cons e es)
  show ?case
  proof (cases e)
    case StdExporter
    let ?w1 = "w\<lparr> deliveries := deliveries w @ [Println log] \<rparr>"
    have step: "call db e log w = Inr ?w1"
      using StdExporter assms(1) by (simp add: stdExporter_non_nil)
    have "unat (errCounter ?w1) + length (filter (\<lambda>e. e = DBExporter) es) \<le> 5"
      using Cons.prems StdExporter by simp
    from Cons.IH [OF this] obtain w' new where
      "export db es log ?w1 = Inr w'" "deliveries w' = deliveries ?w1 @ new"
      "map sink_of new = es" "map record_of new = map (\<lambda>e. log) es"
      by blast
    with step StdExporter have
      "export db (e # es) log w = Inr w'
       \<and> deliveries w' = deliveries w @ (Println log # new)
       \<and> map sink_of (Println log # new) = e # es
       \<and> map record_of (Println log # new) = map (\<lambda>e. log) (e # es)"
      by simp
    then have "\<exists>new. export db (e # es) log w = Inr w'
       \<and> deliveries w' = deliveries w @ new
       \<and> map sink_of new = e # es
       \<and> map record_of new = map (\<lambda>e. log) (e # es)"
      by (rule exI [where x = "Println log # new"])
    then show ?thesis by (rule exI [where x = w'])
  next
    case DBExporter
    have below: "unat (errCounter w) < 5"
      using Cons.prems DBExporter by simp
    from dbExporter_below_threshold [OF this, of db log] obtain w1 where
      w1: "dbExporter db log w = Inr w1"
        "deliveries w1 = deliveries w @ [Insert log (db (inserts w))]"
        "unat (errCounter w1) \<le> unat (errCounter w) + 1"
      by blast
    have "unat (errCounter w1) + length (filter (\<lambda>e. e = DBExporter) es) \<le> 5"
      using Cons.prems DBExporter w1(3) by simp
    from Cons.IH [OF this] obtain w' new where
      "export db es log w1 = Inr w'" "deliveries w' = deliveries w1 @ new"
      "map sink_of new = es" "map record_of new = map (\<lambda>e. log) es"
      by blast
    with w1 DBExporter have
      "export db (e # es) log w = Inr w'
       \<and> deliveries w' = deliveries w @ (Insert log (db (inserts w)) # new)
       \<and> map sink_of (Insert log (db (inserts w)) # new) = e # es
       \<and> map record_of (Insert log (db (inserts w)) # new) = map (\<lambda>e. log) (e # es)"
      by simp
    then have "\<exists>new. export db (e # es) log w = Inr w'
       \<and> deliveries w' = deliveries w @ new
       \<and> map sink_of new = e # es
       \<and> map record_of new = map (\<lambda>e. log) (e # es)"
      by (rule exI [where x = "Insert log (db (inserts w)) # new"])
    then show ?thesis by (rule exI [where x = w'])
  qed
qed

section \<open>The claims\<close>

subsection \<open>Frames without endpoint metadata\<close>

text \<open>
  Claim C1 says that a frame with a decode error, or without an IPv6 layer (every IPv4
  frame is one), produces no record, is dropped, and leaves the loop running for the
  frames that follow. The program does not do that. For such a frame
  \<^verbatim>\<open>newInterceptorLogCommon\<close> returns \<^verbatim>\<open>nil\<close>, and the loop passes the \<^verbatim>\<open>nil\<close> pointer on
  to \<^verbatim>\<open>newQueryLog\<close>, whose statement \<^verbatim>\<open>q.InterceptorLogCommon = *c\<close> dereferences it:
  the process panics, nothing is exported for the frame, and no later frame is read.
  \<^verbatim>\<open>newResponseLog\<close> tests its pointer argument for \<^verbatim>\<open>nil\<close>; \<^verbatim>\<open>newQueryLog\<close> does not.
\<close>

theorem frame_without_metadata_aborts:
  assumes "ErrorLayer p \<noteq> None \<or> LayerTypeIPv6 p = None"
  shows "newInterceptorLogCommon now p = None
         \<and> newQueryLog String p (newInterceptorLogCommon now p) = Inl NilPointerDereference
         \<and> interceptor_frame String sniffFlag now p = Inl NilPointerDereference
         \<and> interceptor String sniffFlag db exporters ((now, p) # packets) w
             = Inl NilPointerDereference"
proof -
  have none: "newInterceptorLogCommon now p = None"
    using assms by (simp add: newInterceptorLogCommon_None_iff)
  then have "interceptor_frame String sniffFlag now p = Inl NilPointerDereference"
    by (rule interceptor_frame_None)
  with none show ?thesis by (simp add: newQueryLog_def)
qed

text \<open>
  An IPv4 query followed by an IPv6 query: the run ends in the panic, although the
  second frame alone is printed as a query record. A frame with a decode error in
  front of it ends the run in the same way.
\<close>

theorem frame_without_metadata_aborts_witness:
  "LayerTypeIPv6 (udp4_frame 40000 53 query_msg) = None
   \<and> interceptor type_name False (\<lambda>k. True) [StdExporter]
        [(0, udp4_frame 40000 53 query_msg), (0, udp6_frame 40000 53 query_msg)] start
       = Inl NilPointerDereference
   \<and> interceptor type_name False (\<lambda>k. True) [StdExporter]
        [(0, udp6_frame 40000 53 query_msg)] start
       = Inr (start\<lparr> deliveries := [Println (QueryLogPtr (Some (query_of 40000 53 False)))] \<rparr>)
   \<and> interceptor type_name False (\<lambda>k. True) [StdExporter]
        [(0, (udp6_frame 40000 53 query_msg)\<lparr> ErrorLayer := Some ''truncated'' \<rparr>),
         (0, udp6_frame 40000 53 query_msg)] start
       = Inl NilPointerDereference"
proof -
  have "ErrorLayer ((udp6_frame 40000 53 query_msg)\<lparr> ErrorLayer := Some ''truncated'' \<rparr>) \<noteq> None
        \<or> LayerTypeIPv6 ((udp6_frame 40000 53 query_msg)\<lparr> ErrorLayer := Some ''truncated'' \<rparr>)
            = None"
    by simp
  from frame_without_metadata_aborts [OF this]
  have malformed: "interceptor type_name False (\<lambda>k. True) [StdExporter]
        [(0, (udp6_frame 40000 53 query_msg)\<lparr> ErrorLayer := Some ''truncated'' \<rparr>),
         (0, udp6_frame 40000 53 query_msg)] start
       = Inl NilPointerDereference"
    by blast
  have ipv4: "LayerTypeIPv6 (udp4_frame 40000 53 query_msg) = None"
    by (simp add: udp4_frame_def)
  then have "ErrorLayer (udp4_frame 40000 53 query_msg) \<noteq> None
             \<or> LayerTypeIPv6 (udp4_frame 40000 53 query_msg) = None"
    by simp
  from frame_without_metadata_aborts [OF this]
  have "interceptor type_name False (\<lambda>k. True) [StdExporter]
          [(0, udp4_frame 40000 53 query_msg), (0, udp6_frame 40000 53 query_msg)] start
        = Inl NilPointerDereference"
    by blast
  moreover have "newInterceptorLogCommon 0 (udp6_frame 40000 53 query_msg) = Some (meta_of 40000 53)"
    by (simp add: newInterceptorLogCommon_def example_defs)
  then have "interceptor_frame type_name False 0 (udp6_frame 40000 53 query_msg)
        = Inr (Some (QueryLogPtr (Some (query_of 40000 53 False))))"
    by (simp add: interceptor_frame_Some newQueryLog_Some select_log_def is_valid_query_def
          example_defs)
  then have "interceptor type_name False (\<lambda>k. True) [StdExporter]
        [(0, udp6_frame 40000 53 query_msg)] start
       = Inr (start\<lparr> deliveries := [Println (QueryLogPtr (Some (query_of 40000 53 False)))] \<rparr>)"
    by (simp add: start_def)
  ultimately show ?thesis using ipv4 malformed by simp
qed

subsection \<open>The fatal threshold of the database exporter\<close>

text \<open>
  Claim C2: starting from a counter of zero, six consecutive failed writes end the
  process with exit status 1, and not fewer than six (after \<open>n < 6\<close> failures the
  process runs and the counter reads \<open>n\<close>); five failures followed by a success leave
  the process running with the counter back at zero; and a successful write sets the
  counter to zero whatever it was.
\<close>

theorem db_fatal_threshold:
  assumes "errCounter w = 0"
  shows "((\<forall>k<6. \<not> db (inserts w + k)) \<longrightarrow>
            writes db [l1, l2, l3, l4, l5, l6] w = Inl (Exit 1)
            \<and> (\<forall>n<6. \<exists>w'. writes db (take n [l1, l2, l3, l4, l5, l6]) w = Inr w'
                   \<and> unat (errCounter w') = n))
         \<and> ((\<forall>k<5. \<not> db (inserts w + k)) \<and> db (inserts w + 5) \<longrightarrow>
              (\<exists>w'. writes db [l1, l2, l3, l4, l5, l6] w = Inr w' \<and> errCounter w' = 0))
         \<and> (db (inserts v) \<longrightarrow> (\<exists>v'. dbExporter db l v = Inr v' \<and> errCounter v' = 0))"
proof (intro conjI impI)
  have zero: "unat (errCounter w) = 0" using assms by simp
  have len5: "length [l1, l2, l3, l4, l5] = 5" by simp
  {
    assume fails: "\<forall>k<5. \<not> db (inserts w + k)"
    have "unat (errCounter w) + 5 \<le> 5" using zero by simp
    from writes_n_failures [OF len5 fails this]
    have "\<exists>w'. writes db [l1, l2, l3, l4, l5] w = Inr w' \<and> inserts w' = inserts w + 5
            \<and> errCounter w' = 5"
      using zero unat_eq_5 by auto
  }
  note five = this
  {
    assume fails: "\<forall>k<6. \<not> db (inserts w + k)"
    then have "\<forall>k<5. \<not> db (inserts w + k)" by auto
    from five [OF this] obtain w5 where w5: "writes db [l1, l2, l3, l4, l5] w = Inr w5"
      "inserts w5 = inserts w + 5" "errCounter w5 = 5"
      by blast
    have "\<not> db (inserts w5)" using fails w5(2) by simp
    then have "dbExporter db l6 w5 = Inl (Exit 1)"
      using w5(3) by (rule dbExporter_fatal)
    then have "writes db ([l1, l2, l3, l4, l5] @ [l6]) w = Inl (Exit 1)"
      using w5(1) by (simp only: writes_append writes.simps sum.case)
    then show "writes db [l1, l2, l3, l4, l5, l6] w = Inl (Exit 1)" by simp
    show "\<forall>n<6. \<exists>w'. writes db (take n [l1, l2, l3, l4, l5, l6]) w = Inr w'
             \<and> unat (errCounter w') = n"
    proof (intro allI impI)
      fix n :: nat assume n: "n < 6"
      have "length (take n [l1, l2, l3, l4, l5, l6]) = n" using n by simp
      moreover have "\<forall>k<n. \<not> db (inserts w + k)" using fails n by auto
      moreover have "unat (errCounter w) + n \<le> 5" using zero n by simp
      ultimately have "\<exists>w'. writes db (take n [l1, l2, l3, l4, l5, l6]) w = Inr w'
             \<and> inserts w' = inserts w + n \<and> unat (errCounter w') = unat (errCounter w) + n"
        by (rule writes_n_failures)
      with zero show "\<exists>w'. writes db (take n [l1, l2, l3, l4, l5, l6]) w = Inr w'
             \<and> unat (errCounter w') = n"
        by auto
    qed
  }
  {
    assume h: "(\<forall>k<5. \<not> db (inserts w + k)) \<and> db (inserts w + 5)"
    then have "\<forall>k<5. \<not> db (inserts w + k)" by blast
    from five [OF this] obtain w5 where w5: "writes db [l1, l2, l3, l4, l5] w = Inr w5"
      "inserts w5 = inserts w + 5"
      by blast
    have "db (inserts w5)" using h w5(2) by simp
    then have "dbExporter db l6 w5
            = Inr (w5\<lparr> inserts := inserts w5 + 1, deliveries := deliveries w5 @ [Insert l6 True],
                       errCounter := 0 \<rparr>)"
      by (rule dbExporter_success)
    then have "writes db ([l1, l2, l3, l4, l5] @ [l6]) w
            = Inr (w5\<lparr> inserts := inserts w5 + 1, deliveries := deliveries w5 @ [Insert l6 True],
                       errCounter := 0 \<rparr>)"
      using w5(1) by (simp only: writes_append writes.simps sum.case)
    then show "\<exists>w'. writes db [l1, l2, l3, l4, l5, l6] w = Inr w' \<and> errCounter w' = 0"
      by simp
  }
  {
    assume "db (inserts v)"
    then show "\<exists>v'. dbExporter db l v = Inr v' \<and> errCounter v' = 0"
      by (simp add: dbExporter_success)
  }
qed

text \<open>A database that never answers, and one that answers at the sixth attempt.\<close>

theorem db_fatal_threshold_witness:
  "errCounter start = 0
   \<and> writes (\<lambda>k. False) [query_record, query_record, query_record, query_record, query_record, query_record] start = Inl (Exit 1)
   \<and> (\<exists>w'. writes (\<lambda>k. False) [query_record, query_record, query_record, query_record, query_record] start = Inr w' \<and> unat (errCounter w') = 5)
   \<and> (\<exists>w'. writes (\<lambda>k. k = 5) [query_record, query_record, query_record, query_record, query_record, query_record] start = Inr w' \<and> errCounter w' = 0)
   \<and> (\<exists>w'. dbExporter (\<lambda>k. True) query_record (start\<lparr> errCounter := 3 \<rparr>) = Inr w' \<and> errCounter w' = 0)"
proof -
  let ?l = query_record
  have zero: "errCounter start = 0" by (simp add: start_def)
  have allfail: "\<forall>k<6. \<not> (\<lambda>k. False) (inserts start + k)" by simp
  have recover: "(\<forall>k<5. \<not> (\<lambda>k. k = 5) (inserts start + k)) \<and> (\<lambda>k. k = 5) (inserts start + 5)"
    by (simp add: start_def)
  have ok: "(\<lambda>k. True) (inserts (start\<lparr> errCounter := 3 \<rparr>))" by simp
  note t1 = db_fatal_threshold [OF zero, where db = "\<lambda>k. False" and ?l1.0 = ?l and ?l2.0 = ?l
      and ?l3.0 = ?l and ?l4.0 = ?l and ?l5.0 = ?l and ?l6.0 = ?l]
  note t2 = db_fatal_threshold [OF zero, where db = "\<lambda>k. k = 5" and ?l1.0 = ?l and ?l2.0 = ?l
      and ?l3.0 = ?l and ?l4.0 = ?l and ?l5.0 = ?l and ?l6.0 = ?l]
  note t3 = db_fatal_threshold [OF zero, where db = "\<lambda>k. True" and l = ?l
      and v = "start\<lparr> errCounter := 3 \<rparr>"]
  have a: "writes (\<lambda>k. False) [?l, ?l, ?l, ?l, ?l, ?l] start = Inl (Exit 1)"
    using t1 allfail by blast
  have "\<forall>n<6. \<exists>w'. writes (\<lambda>k. False) (take n [?l, ?l, ?l, ?l, ?l, ?l]) start = Inr w'
                   \<and> unat (errCounter w') = n"
    using t1 allfail by blast
  then have "(5 :: nat) < 6 \<longrightarrow>
     (\<exists>w'. writes (\<lambda>k. False) (take 5 [?l, ?l, ?l, ?l, ?l, ?l]) start = Inr w'
                   \<and> unat (errCounter w') = 5)"
    by (rule spec)
  then have b: "\<exists>w'. writes (\<lambda>k. False) [?l, ?l, ?l, ?l, ?l] start = Inr w'
                   \<and> unat (errCounter w') = 5"
    by simp
  have c: "\<exists>w'. writes (\<lambda>k. k = 5) [?l, ?l, ?l, ?l, ?l, ?l] start = Inr w' \<and> errCounter w' = 0"
    using t2 recover by blast
  have d: "\<exists>w'. dbExporter (\<lambda>k. True) ?l (start\<lparr> errCounter := 3 \<rparr>) = Inr w' \<and> errCounter w' = 0"
    using t3 ok by blast
  from zero a b c d show ?thesis by blast
qed

subsection \<open>A frame that is both a query and an AAAA answer\<close>

text \<open>
  Claim C3: when a frame is a valid query (destination port 53, query record derived)
  and also carries a qualifying AAAA answer (source port 53, response record derived,
  query type \<^verbatim>\<open>AAAA\<close>, has-answer true), the record handed to the exporters is the
  response record if \<^verbatim>\<open>sniffFlag\<close> is set and the query record if it is not.
\<close>

theorem response_view_precedence:
  assumes "newInterceptorLogCommon now p = Some c"
    and "newQueryLog String p (Some c) = Inr (Some q)"
    and "newResponseLog p (Some q) = Some r"
    and "DstPort c = 53"
    and "SrcPort c = 53" and "QType (QueryLog r) = ''AAAA''" and "hasAnswer (QueryLog r)"
  shows "is_valid_query c (Some q) \<and> has_aaaa_answer c (Some r)
         \<and> interceptor_frame String True now p = Inr (Some (ResponseLogPtr (Some r)))
         \<and> interceptor_frame String False now p = Inr (Some (QueryLogPtr (Some q)))"
  using assms
  by (simp add: interceptor_frame_Some select_log_def is_valid_query_def has_aaaa_answer_def
        is_valid_response_def)

text \<open>A frame from port 53 to port 53 with an AAAA question and the answer \<^verbatim>\<open>2001:db8::1\<close>.\<close>

theorem response_view_precedence_witness:
  "newInterceptorLogCommon 0 (udp6_frame 53 53 (response_msg [Some native_addr]))
     = Some (meta_of 53 53)
   \<and> newQueryLog type_name (udp6_frame 53 53 (response_msg [Some native_addr]))
        (Some (meta_of 53 53)) = Inr (Some (query_of 53 53 True))
   \<and> newResponseLog (udp6_frame 53 53 (response_msg [Some native_addr]))
        (Some (query_of 53 53 True)) = Some (response_of 53 53 (Some native_addr) True)
   \<and> interceptor_frame type_name True 0 (udp6_frame 53 53 (response_msg [Some native_addr]))
       = Inr (Some (ResponseLogPtr (Some (response_of 53 53 (Some native_addr) True))))
   \<and> interceptor_frame type_name False 0 (udp6_frame 53 53 (response_msg [Some native_addr]))
       = Inr (Some (QueryLogPtr (Some (query_of 53 53 True))))"
proof -
  let ?p = "udp6_frame 53 53 (response_msg [Some native_addr])"
  have c: "newInterceptorLogCommon 0 ?p = Some (meta_of 53 53)"
    by (simp add: newInterceptorLogCommon_def udp6_frame_def meta_of_def)
  have q: "newQueryLog type_name ?p (Some (meta_of 53 53)) = Inr (Some (query_of 53 53 True))"
    by (simp add: newQueryLog_Some udp6_frame_def response_msg_def question_AAAA_def
          type_name_def query_of_def)
  have r: "newResponseLog ?p (Some (query_of 53 53 True))
             = Some (response_of 53 53 (Some native_addr) True)"
    by (simp add: newResponseLog_Some native_addr_outside udp6_frame_def response_msg_def
          response_of_def query_of_def)
  have ports: "DstPort (meta_of 53 53) = 53" "SrcPort (meta_of 53 53) = 53"
    by (simp_all add: meta_of_def)
  have aaaa: "QType (QueryLog (response_of 53 53 (Some native_addr) True)) = ''AAAA''"
    "hasAnswer (QueryLog (response_of 53 53 (Some native_addr) True))"
    by (simp_all add: response_of_def query_of_def)
  from response_view_precedence [OF c q r ports aaaa] c q r show ?thesis by simp
qed

subsection \<open>IPv6 readiness\<close>

text \<open>
  Claim C4: on every response record, \<^verbatim>\<open>IPv6Ready\<close> is false exactly when the answer
  address lies inside \<^verbatim>\<open>64:ff9b::/96\<close> (in the words of the specification,
  \<^const>\<open>in_nat64_synthesis_prefix\<close>) and true for every address outside it; it is false
  for \<^verbatim>\<open>64:ff9b::\<close> and true for \<^verbatim>\<open>64:ff9a::\<close>. The program computes it with
  \<^const>\<open>Contains\<close>; an answer without an address, an IPv4 address of four bytes and an
  IPv4-mapped address are outside the prefix for both.
\<close>

theorem ipv6_ready_iff_outside_nat64:
  "(newResponseLog p q = Some r \<longrightarrow>
      IPv6Ready r = (\<not> in_nat64_synthesis_prefix (AnsIP r)))
   \<and> (LayerTypeDNS p = Some dns \<and> Answers dns = a # as \<longrightarrow>
        (\<exists>r'. newResponseLog p (Some q') = Some r' \<and> AnsIP r' = IP a
           \<and> IPv6Ready r' = (\<not> in_nat64_synthesis_prefix (IP a))
           \<and> (IP a = Some addr_64_ff9b \<longrightarrow> \<not> IPv6Ready r')
           \<and> (IP a = Some addr_64_ff9a \<longrightarrow> IPv6Ready r')))"
proof (intro conjI impI)
  assume "newResponseLog p q = Some r"
  then show "IPv6Ready r = (\<not> in_nat64_synthesis_prefix (AnsIP r))"
    by (cases q)
      (auto simp add: newResponseLog_Some Contains_nat64 split: option.splits list.splits)
next
  assume "LayerTypeDNS p = Some dns \<and> Answers dns = a # as"
  moreover have "in_nat64_synthesis_prefix (Some addr_64_ff9b)"
    by (simp add: in_nat64_synthesis_prefix_def addr_64_ff9b_def)
  moreover have "\<not> in_nat64_synthesis_prefix (Some addr_64_ff9a)"
    by (simp add: in_nat64_synthesis_prefix_def addr_64_ff9a_def)
  ultimately show "\<exists>r'. newResponseLog p (Some q') = Some r' \<and> AnsIP r' = IP a
           \<and> IPv6Ready r' = (\<not> in_nat64_synthesis_prefix (IP a))
           \<and> (IP a = Some addr_64_ff9b \<longrightarrow> \<not> IPv6Ready r')
           \<and> (IP a = Some addr_64_ff9a \<longrightarrow> IPv6Ready r')"
    by (auto simp add: newResponseLog_Some Contains_nat64)
qed

text \<open>
  Responses whose first answer is \<^verbatim>\<open>64:ff9b::\<close>, \<^verbatim>\<open>64:ff9a::\<close>, \<^verbatim>\<open>64:ff9b::c000:201\<close>
  and \<^verbatim>\<open>2001:db8::1\<close>.
\<close>

theorem ipv6_ready_iff_outside_nat64_witness:
  "newResponseLog (udp6_frame 53 40000 (response_msg [Some addr_64_ff9b]))
      (Some (query_of 53 40000 True))
     = Some (response_of 53 40000 (Some addr_64_ff9b) False)
   \<and> newResponseLog (udp6_frame 53 40000 (response_msg [Some addr_64_ff9a]))
      (Some (query_of 53 40000 True))
     = Some (response_of 53 40000 (Some addr_64_ff9a) True)
   \<and> newResponseLog (udp6_frame 53 40000 (response_msg [Some synthesised_addr]))
      (Some (query_of 53 40000 True))
     = Some (response_of 53 40000 (Some synthesised_addr) False)
   \<and> newResponseLog (udp6_frame 53 40000 (response_msg [Some native_addr]))
      (Some (query_of 53 40000 True))
     = Some (response_of 53 40000 (Some native_addr) True)"
proof -
  have ready: "\<exists>r'. newResponseLog (udp6_frame 53 40000 (response_msg [Some bs]))
                  (Some (query_of 53 40000 True)) = Some r'
                \<and> AnsIP r' = Some bs
                \<and> IPv6Ready r' = (\<not> in_nat64_synthesis_prefix (Some bs))" for bs
  proof -
    let ?p = "udp6_frame 53 40000 (response_msg [Some bs])"
    have "LayerTypeDNS ?p = Some (response_msg [Some bs])
          \<and> Answers (response_msg [Some bs]) = \<lparr> IP = Some bs \<rparr> # []"
      by (simp add: udp6_frame_def response_msg_def)
    with ipv6_ready_iff_outside_nat64
      [where p = ?p and dns = "response_msg [Some bs]" and a = "\<lparr> IP = Some bs \<rparr>"
         and as = "[]" and q' = "query_of 53 40000 True" and q = None
         and r = "response_of 53 40000 None False"]
    show ?thesis by auto
  qed
  have shape: "newResponseLog (udp6_frame 53 40000 (response_msg [Some bs]))
                  (Some (query_of 53 40000 True)) = Some r'
               \<Longrightarrow> r' = response_of 53 40000 (Some bs) (IPv6Ready r')" for bs r'
    by (auto simp add: newResponseLog_Some udp6_frame_def response_msg_def response_of_def
          query_of_def)
  have "in_nat64_synthesis_prefix (Some addr_64_ff9b)"
    "\<not> in_nat64_synthesis_prefix (Some addr_64_ff9a)"
    "in_nat64_synthesis_prefix (Some synthesised_addr)"
    "\<not> in_nat64_synthesis_prefix (Some native_addr)"
    by (simp_all add: in_nat64_synthesis_prefix_def addr_64_ff9b_def addr_64_ff9a_def
          synthesised_addr_def native_addr_def)
  with ready [of addr_64_ff9b] ready [of addr_64_ff9a] ready [of synthesised_addr]
    ready [of native_addr] shape
  show ?thesis by metis
qed

subsection \<open>When a record is emitted\<close>

text \<open>
  Claim C5: a record is handed to the exporters for a frame if and only if the frame
  is a valid query (its destination port is 53 and a query record was derived) or
  carries an AAAA answer (its source port is 53, a response record was derived, the
  query type is \<^verbatim>\<open>AAAA\<close> and the has-answer flag of the response record is true). When
  neither holds nothing reaches any sink: the loop goes on to the next frame with the
  state of the process unchanged (or, for a frame without metadata, has stopped in the
  panic of \<^verbatim>\<open>newQueryLog\<close> before any exporter was called). When one of them holds,
  exactly one record is handed to the loop over the exporters: the response record if
  \<^verbatim>\<open>sniffFlag\<close> is set and the frame carries an AAAA answer, the query record otherwise.
\<close>

theorem emission_iff:
  "((\<exists>log. interceptor_frame String sniffFlag now p = Inr (Some log)) =
      (\<exists>c q. newInterceptorLogCommon now p = Some c
          \<and> newQueryLog String p (Some c) = Inr (Some q)
          \<and> (DstPort c = 53
              \<or> (\<exists>r. newResponseLog p (Some q) = Some r \<and> SrcPort c = 53
                    \<and> QType (QueryLog r) = ''AAAA'' \<and> hasAnswer (QueryLog r)))))
   \<and> (newInterceptorLogCommon now p = Some c \<and> newQueryLog String p (Some c) = Inr q \<longrightarrow>
        (interceptor_frame String sniffFlag now p = Inr None) =
          (\<not> (DstPort c = 53 \<and> (\<exists>q'. q = Some q'))
           \<and> \<not> (\<exists>r. newResponseLog p q = Some r \<and> SrcPort c = 53
                   \<and> QType (QueryLog r) = ''AAAA'' \<and> hasAnswer (QueryLog r))))
   \<and> (interceptor_frame String sniffFlag now p = Inr None \<longrightarrow>
        interceptor String sniffFlag db exporters ((now, p) # packets) w
          = interceptor String sniffFlag db exporters packets w)
   \<and> (\<not> (\<exists>log. interceptor_frame String sniffFlag now p = Inr (Some log)) \<longrightarrow>
        interceptor String sniffFlag db exporters [(now, p)] w = Inr w
        \<or> interceptor String sniffFlag db exporters [(now, p)] w = Inl NilPointerDereference)
   \<and> (interceptor_frame String sniffFlag now p = Inr (Some log) \<longrightarrow>
        (\<exists>c' q'. newInterceptorLogCommon now p = Some c'
            \<and> newQueryLog String p (Some c') = Inr (Some q')
            \<and> log = (if sniffFlag
                         \<and> (\<exists>r. newResponseLog p (Some q') = Some r \<and> SrcPort c' = 53
                               \<and> QType (QueryLog r) = ''AAAA'' \<and> hasAnswer (QueryLog r))
                      then ResponseLogPtr (newResponseLog p (Some q'))
                      else QueryLogPtr (Some q')))
        \<and> non_nil log
        \<and> interceptor String sniffFlag db exporters ((now, p) # packets) w
            = (case export db exporters log w of
                 Inl a \<Rightarrow> Inl a
               | Inr w' \<Rightarrow> interceptor String sniffFlag db exporters packets w'))"
proof -
  let ?frame = "interceptor_frame String sniffFlag now p"
  let ?A = "\<lambda>c q. \<exists>r. newResponseLog p q = Some r \<and> SrcPort c = 53
                   \<and> QType (QueryLog r) = ''AAAA'' \<and> hasAnswer (QueryLog r)"
  have frame_eq: "?frame =
      Inr (if \<not> (DstPort c = 53 \<and> (\<exists>q'. q = Some q')) \<and> \<not> ?A c q then None
           else if sniffFlag \<and> ?A c q then Some (ResponseLogPtr (newResponseLog p q))
           else Some (QueryLogPtr q))"
    if "newInterceptorLogCommon now p = Some c" "newQueryLog String p (Some c) = Inr q" for c q
    using that by (simp add: interceptor_frame_Some select_log_eq)
  have A_query: "\<exists>q'. q = Some q'" if "?A c q" for c q
    using that newResponseLog_Some_query by blast
  have emitted: "\<exists>c' q'. newInterceptorLogCommon now p = Some c'
            \<and> newQueryLog String p (Some c') = Inr (Some q')
            \<and> (DstPort c' = 53 \<or> ?A c' (Some q'))
            \<and> l = (if sniffFlag \<and> ?A c' (Some q')
                    then ResponseLogPtr (newResponseLog p (Some q'))
                    else QueryLogPtr (Some q'))"
    if l: "?frame = Inr (Some l)" for l
  proof (cases rule: interceptor_frame_cases [of now p String sniffFlag])
    case no_metadata
    with l show ?thesis by simp
  next
    case (metadata c q)
    from l frame_eq [OF metadata(1,2)]
    have sel: "\<not> (\<not> (DstPort c = 53 \<and> (\<exists>q'. q = Some q')) \<and> \<not> ?A c q)"
      and val: "l = (if sniffFlag \<and> ?A c q then ResponseLogPtr (newResponseLog p q)
                     else QueryLogPtr q)"
      by (auto split: if_splits)
    from sel A_query obtain q' where q': "q = Some q'" by blast
    with sel have "DstPort c = 53 \<or> ?A c (Some q')" by blast
    with metadata(1,2) q' val show ?thesis by blast
  qed
  have c1: "(\<exists>log. ?frame = Inr (Some log)) =
      (\<exists>c q. newInterceptorLogCommon now p = Some c
          \<and> newQueryLog String p (Some c) = Inr (Some q)
          \<and> (DstPort c = 53 \<or> ?A c (Some q)))"
  proof
    assume "\<exists>log. ?frame = Inr (Some log)"
    then obtain l where "?frame = Inr (Some l)" by blast
    from emitted [OF this] show "\<exists>c q. newInterceptorLogCommon now p = Some c
          \<and> newQueryLog String p (Some c) = Inr (Some q)
          \<and> (DstPort c = 53 \<or> ?A c (Some q))"
      by blast
  next
    assume "\<exists>c q. newInterceptorLogCommon now p = Some c
          \<and> newQueryLog String p (Some c) = Inr (Some q)
          \<and> (DstPort c = 53 \<or> ?A c (Some q))"
    then obtain c q where h: "newInterceptorLogCommon now p = Some c"
      "newQueryLog String p (Some c) = Inr (Some q)" "DstPort c = 53 \<or> ?A c (Some q)"
      by blast
    from frame_eq [OF h(1,2)] h(3) show "\<exists>log. ?frame = Inr (Some log)"
      by (auto split: if_splits)
  qed
  have c2: "(?frame = Inr None) =
          (\<not> (DstPort c = 53 \<and> (\<exists>q'. q = Some q')) \<and> \<not> ?A c q)"
    if "newInterceptorLogCommon now p = Some c \<and> newQueryLog String p (Some c) = Inr q"
    using frame_eq [of c q] that by (auto split: if_splits)
  have c3: "interceptor String sniffFlag db exporters ((now, p) # packets) w
          = interceptor String sniffFlag db exporters packets w"
    if "?frame = Inr None"
    using that by simp
  have c4: "interceptor String sniffFlag db exporters [(now, p)] w = Inr w
        \<or> interceptor String sniffFlag db exporters [(now, p)] w = Inl NilPointerDereference"
    if none: "\<not> (\<exists>log. ?frame = Inr (Some log))"
  proof (cases rule: interceptor_frame_cases [of now p String sniffFlag])
    case no_metadata
    then show ?thesis by simp
  next
    case (metadata c q)
    with none have "?frame = Inr None"
      by (cases "select_log sniffFlag c q (newResponseLog p q)") simp_all
    then show ?thesis by simp
  qed
  have c5: "(\<exists>c' q'. newInterceptorLogCommon now p = Some c'
            \<and> newQueryLog String p (Some c') = Inr (Some q')
            \<and> log = (if sniffFlag \<and> ?A c' (Some q')
                      then ResponseLogPtr (newResponseLog p (Some q'))
                      else QueryLogPtr (Some q')))
        \<and> non_nil log
        \<and> interceptor String sniffFlag db exporters ((now, p) # packets) w
            = (case export db exporters log w of
                 Inl a \<Rightarrow> Inl a
               | Inr w' \<Rightarrow> interceptor String sniffFlag db exporters packets w')"
    if l: "?frame = Inr (Some log)"
  proof -
    from emitted [OF l] obtain c' q' where e:
      "newInterceptorLogCommon now p = Some c'"
      "newQueryLog String p (Some c') = Inr (Some q')"
      "log = (if sniffFlag \<and> ?A c' (Some q')
              then ResponseLogPtr (newResponseLog p (Some q'))
              else QueryLogPtr (Some q'))"
      by blast
    from e(3) have "non_nil log" by (auto split: if_splits)
    moreover have "interceptor String sniffFlag db exporters ((now, p) # packets) w
            = (case export db exporters log w of
                 Inl a \<Rightarrow> Inl a
               | Inr w' \<Rightarrow> interceptor String sniffFlag db exporters packets w')"
      using l by simp
    ultimately show ?thesis using e by blast
  qed
  from c1 c2 c3 c4 c5 show ?thesis by blast
qed

text \<open>
  A query to port 40001 is dropped and leaves the state as it was; a response from
  port 53 to a question for A records is dropped; the query to port 53 is emitted, and
  printed and stored once; an AAAA response from port 53 to port 40000 is emitted, as
  a response record with \<^verbatim>\<open>sniffFlag\<close> and as a query record without.
\<close>

theorem emission_iff_witness:
  "interceptor_frame type_name True 0 (udp6_frame 40000 40001 query_msg) = Inr None
   \<and> interceptor type_name True (\<lambda>k. True) [StdExporter, DBExporter]
        [(0, udp6_frame 40000 40001 query_msg)] start = Inr start
   \<and> interceptor_frame type_name True 0 (udp6_frame 53 40000 response_A_msg) = Inr None
   \<and> interceptor_frame type_name False 0 (udp6_frame 40000 53 query_msg) = Inr (Some query_record)
   \<and> interceptor type_name False (\<lambda>k. True) [StdExporter, DBExporter]
        [(0, udp6_frame 40000 53 query_msg)] start
       = Inr \<lparr> errCounter = 0, inserts = 1,
               deliveries = [Println query_record, Insert query_record True] \<rparr>
   \<and> interceptor_frame type_name True 0 (udp6_frame 53 40000 (response_msg [Some native_addr]))
       = Inr (Some (ResponseLogPtr (Some (response_of 53 40000 (Some native_addr) True))))
   \<and> interceptor_frame type_name False 0 (udp6_frame 53 40000 (response_msg [Some native_addr]))
       = Inr (Some (QueryLogPtr (Some (query_of 53 40000 True))))"
proof -
  let ?drop = "udp6_frame 40000 40001 query_msg"
  let ?keep = "udp6_frame 40000 53 query_msg"
  let ?resp = "udp6_frame 53 40000 (response_msg [Some native_addr])"
  let ?respA = "udp6_frame 53 40000 response_A_msg"
  let ?qA = "\<lparr> InterceptorLogCommon = meta_of 53 40000, QString = ''example.org'',
               QType = ''A'', hasAnswer = True \<rparr>"
  have meta: "newInterceptorLogCommon 0 (udp6_frame sport dport dns) = Some (meta_of sport dport)"
    for sport dport dns
    by (simp add: newInterceptorLogCommon_def udp6_frame_def meta_of_def)
  have q1: "newQueryLog type_name ?drop (Some (meta_of 40000 40001))
              = Inr (Some (query_of 40000 40001 False))"
    by (simp add: newQueryLog_Some udp6_frame_def query_msg_def question_AAAA_def
          type_name_def query_of_def)
  have r1: "newResponseLog ?drop (Some (query_of 40000 40001 False)) = None"
    by (simp add: newResponseLog_Some udp6_frame_def query_msg_def)
  have p1: "DstPort (meta_of 40000 40001) \<noteq> 53"
    by (simp add: meta_of_def)
  have dropped: "interceptor_frame type_name True 0 ?drop = Inr None"
    using emission_iff [where p = ?drop and now = 0 and String = type_name and sniffFlag = True
        and c = "meta_of 40000 40001" and q = "Some (query_of 40000 40001 False)"]
      meta q1 r1 p1
    by auto
  have untouched: "interceptor type_name True (\<lambda>k. True) [StdExporter, DBExporter]
        [(0, ?drop)] start = Inr start"
    using emission_iff [where p = ?drop and now = 0 and String = type_name and sniffFlag = True
        and db = "\<lambda>k. True" and exporters = "[StdExporter, DBExporter]" and packets = "[]"
        and w = start]
      dropped
    by auto
  have qA: "newQueryLog type_name ?respA (Some (meta_of 53 40000)) = Inr (Some ?qA)"
    by (simp add: newQueryLog_Some udp6_frame_def response_A_msg_def question_A_def
          type_name_def)
  have rA: "newResponseLog ?respA (Some ?qA) = Some r \<Longrightarrow> QType (QueryLog r) = ''A''" for r
    by (auto simp add: newResponseLog_Some udp6_frame_def response_A_msg_def)
  have pA: "DstPort (meta_of 53 40000) \<noteq> 53"
    by (simp add: meta_of_def)
  have droppedA: "interceptor_frame type_name True 0 ?respA = Inr None"
    using emission_iff [where p = ?respA and now = 0 and String = type_name and sniffFlag = True
        and c = "meta_of 53 40000" and q = "Some ?qA"]
      meta qA rA pA
    by auto
  have q2: "newQueryLog type_name ?keep (Some (meta_of 40000 53))
              = Inr (Some (query_of 40000 53 False))"
    by (simp add: newQueryLog_Some udp6_frame_def query_msg_def question_AAAA_def
          type_name_def query_of_def)
  have r2: "newResponseLog ?keep (Some (query_of 40000 53 False)) = None"
    by (simp add: newResponseLog_Some udp6_frame_def query_msg_def)
  have p2: "DstPort (meta_of 40000 53) = 53"
    by (simp add: meta_of_def)
  have "\<exists>log. interceptor_frame type_name False 0 ?keep = Inr (Some log)"
    using emission_iff [where p = ?keep and now = 0 and String = type_name and sniffFlag = False]
      meta q2 p2
    by blast
  then obtain l2 where l2: "interceptor_frame type_name False 0 ?keep = Inr (Some l2)"
    by blast
  note t2 = emission_iff [where p = ?keep and now = 0 and String = type_name
      and sniffFlag = False and log = l2 and db = "\<lambda>k. True"
      and exporters = "[StdExporter, DBExporter]" and packets = "[]" and w = start]
  from t2 l2 meta q2 have "l2 = QueryLogPtr (Some (query_of 40000 53 False))"
    by auto
  then have l2': "l2 = query_record" by (simp add: query_record_def)
  from t2 l2 have "interceptor type_name False (\<lambda>k. True) [StdExporter, DBExporter]
        [(0, ?keep)] start
      = (case export (\<lambda>k. True) [StdExporter, DBExporter] l2 start of
           Inl a \<Rightarrow> Inl a
         | Inr w' \<Rightarrow> interceptor type_name False (\<lambda>k. True) [StdExporter, DBExporter] [] w')"
    by blast
  also have "\<dots> = Inr \<lparr> errCounter = 0, inserts = 1,
               deliveries = [Println query_record, Insert query_record True] \<rparr>"
    by (simp add: l2' start_def query_record_def dbExporter_def)
  finally have delivered: "interceptor type_name False (\<lambda>k. True) [StdExporter, DBExporter]
        [(0, ?keep)] start
       = Inr \<lparr> errCounter = 0, inserts = 1,
               deliveries = [Println query_record, Insert query_record True] \<rparr>" .
  have q3: "newQueryLog type_name ?resp (Some (meta_of 53 40000))
              = Inr (Some (query_of 53 40000 True))"
    by (simp add: newQueryLog_Some udp6_frame_def response_msg_def question_AAAA_def
          type_name_def query_of_def)
  have r3: "newResponseLog ?resp (Some (query_of 53 40000 True))
              = Some (response_of 53 40000 (Some native_addr) True)"
    by (simp add: newResponseLog_Some native_addr_outside udp6_frame_def response_msg_def
          response_of_def query_of_def)
  have a3: "SrcPort (meta_of 53 40000) = 53"
    "QType (QueryLog (response_of 53 40000 (Some native_addr) True)) = ''AAAA''"
    "hasAnswer (QueryLog (response_of 53 40000 (Some native_addr) True))"
    by (simp_all add: meta_of_def response_of_def query_of_def)
  have answer: "\<exists>r. newResponseLog ?resp (Some (query_of 53 40000 True)) = Some r
      \<and> SrcPort (meta_of 53 40000) = 53 \<and> QType (QueryLog r) = ''AAAA''
      \<and> hasAnswer (QueryLog r)"
    using r3 a3 by simp
  have em: "\<exists>log. interceptor_frame type_name sniff 0 ?resp = Inr (Some log)" for sniff
    using emission_iff [where p = ?resp and now = 0 and String = type_name and sniffFlag = sniff]
      meta q3 answer
    by blast
  from em [of True] obtain l3 where
    l3: "interceptor_frame type_name True 0 ?resp = Inr (Some l3)"
    by blast
  from emission_iff [where p = ?resp and now = 0 and String = type_name and sniffFlag = True
      and log = l3] l3 meta q3 answer r3
  have "l3 = ResponseLogPtr (Some (response_of 53 40000 (Some native_addr) True))"
    by auto
  with l3 have response_view: "interceptor_frame type_name True 0 ?resp
       = Inr (Some (ResponseLogPtr (Some (response_of 53 40000 (Some native_addr) True))))"
    by simp
  from em [of False] obtain l4 where
    l4: "interceptor_frame type_name False 0 ?resp = Inr (Some l4)"
    by blast
  from emission_iff [where p = ?resp and now = 0 and String = type_name and sniffFlag = False
      and log = l4] l4 meta q3
  have "l4 = QueryLogPtr (Some (query_of 53 40000 True))"
    by auto
  with l4 have query_view: "interceptor_frame type_name False 0 ?resp
       = Inr (Some (QueryLogPtr (Some (query_of 53 40000 True))))"
    by simp
  from dropped untouched droppedA l2 l2' delivered response_view query_view
  show ?thesis by simp
qed

subsection \<open>The query record\<close>

text \<open>
  Claim C6: given the metadata of a frame whose DNS message has at least one question,
  \<^verbatim>\<open>newQueryLog\<close> returns a query record whose name and type are those of question 0,
  and the same record as for the message cut down to question 0; it returns no record
  when the frame has no DNS layer or the message has no question.
\<close>

theorem newQueryLog_first_question:
  "(LayerTypeDNS p = Some dns \<and> Questions dns = qn # qs \<longrightarrow>
      (\<exists>q. newQueryLog String p (Some c) = Inr (Some q)
          \<and> QString q = Name qn \<and> QType q = String (Type qn)
          \<and> newQueryLog String (p\<lparr> LayerTypeDNS := Some (dns\<lparr> Questions := [qn] \<rparr>) \<rparr>) (Some c)
              = Inr (Some q)))
   \<and> (LayerTypeDNS p = None \<longrightarrow> newQueryLog String p (Some c) = Inr None)
   \<and> (LayerTypeDNS p = Some dns \<and> Questions dns = [] \<longrightarrow>
        newQueryLog String p (Some c) = Inr None)"
  by (simp add: newQueryLog_Some)

text \<open>A message with two questions, a frame without a DNS layer, a message without a question.\<close>

theorem newQueryLog_first_question_witness:
  "(\<exists>q. newQueryLog type_name (udp6_frame 40000 53 two_question_msg) (Some (meta_of 40000 53))
          = Inr (Some q)
        \<and> QString q = ''example.com'' \<and> QType q = ''AAAA''
        \<and> newQueryLog type_name (udp6_frame 40000 53 query_msg) (Some (meta_of 40000 53))
            = Inr (Some q))
   \<and> newQueryLog type_name ((udp6_frame 40000 53 query_msg)\<lparr> LayerTypeDNS := None \<rparr>)
        (Some (meta_of 40000 53)) = Inr None
   \<and> newQueryLog type_name (udp6_frame 40000 53 no_question_msg) (Some (meta_of 40000 53))
        = Inr None"
proof -
  let ?two = "udp6_frame 40000 53 two_question_msg"
  have "LayerTypeDNS ?two = Some two_question_msg
        \<and> Questions two_question_msg = question_AAAA # [question_A]"
    by (simp add: udp6_frame_def two_question_msg_def)
  with newQueryLog_first_question
         [where p = ?two and dns = two_question_msg and qn = question_AAAA
            and qs = "[question_A]" and String = type_name and c = "meta_of 40000 53"]
  have "\<exists>q. newQueryLog type_name ?two (Some (meta_of 40000 53)) = Inr (Some q)
         \<and> QString q = Name question_AAAA \<and> QType q = type_name (Type question_AAAA)
         \<and> newQueryLog type_name
              (?two\<lparr> LayerTypeDNS := Some (two_question_msg\<lparr> Questions := [question_AAAA] \<rparr>) \<rparr>)
              (Some (meta_of 40000 53)) = Inr (Some q)"
    by blast
  moreover have
    "?two\<lparr> LayerTypeDNS := Some (two_question_msg\<lparr> Questions := [question_AAAA] \<rparr>) \<rparr>
       = udp6_frame 40000 53 query_msg"
    by (simp add: udp6_frame_def two_question_msg_def query_msg_def)
  moreover have "Name question_AAAA = ''example.com''"
    "type_name (Type question_AAAA) = ''AAAA''"
    by (simp_all add: question_AAAA_def type_name_def)
  moreover have
    "newQueryLog type_name ((udp6_frame 40000 53 query_msg)\<lparr> LayerTypeDNS := None \<rparr>)
       (Some (meta_of 40000 53)) = Inr None"
    using newQueryLog_first_question
         [where p = "(udp6_frame 40000 53 query_msg)\<lparr> LayerTypeDNS := None \<rparr>"
            and String = type_name and c = "meta_of 40000 53"]
    by simp
  moreover have
    "newQueryLog type_name (udp6_frame 40000 53 no_question_msg) (Some (meta_of 40000 53))
       = Inr None"
    using newQueryLog_first_question
         [where p = "udp6_frame 40000 53 no_question_msg" and dns = no_question_msg
            and String = type_name and c = "meta_of 40000 53"]
    by (simp add: udp6_frame_def no_question_msg_def)
  ultimately show ?thesis by simp
qed

subsection \<open>The response record\<close>

text \<open>
  Claim C7: \<^verbatim>\<open>newResponseLog\<close> returns no record when the query record is absent, and
  none when the DNS message has no answer (or the frame no DNS layer); a response
  record therefore comes with a query record and a first answer, its answer address
  is that of answer 0, and it is the same record as for the message cut down to
  answer 0.
\<close>

theorem newResponseLog_needs_query_and_answer:
  "newResponseLog p None = None
   \<and> (LayerTypeDNS p = None \<longrightarrow> newResponseLog p q = None)
   \<and> (LayerTypeDNS p = Some dns \<and> Answers dns = [] \<longrightarrow> newResponseLog p q = None)
   \<and> (newResponseLog p q = Some r \<longrightarrow>
        (\<exists>q' dns' a as. q = Some q' \<and> LayerTypeDNS p = Some dns' \<and> Answers dns' = a # as
           \<and> AnsIP r = IP a
           \<and> newResponseLog (p\<lparr> LayerTypeDNS := Some (dns'\<lparr> Answers := [a] \<rparr>) \<rparr>) q = Some r))"
  by (cases q) (auto simp add: newResponseLog_Some split: option.splits list.splits)

text \<open>No query record; no answer; two answers, of which the first is used.\<close>

theorem newResponseLog_needs_query_and_answer_witness:
  "newResponseLog (udp6_frame 53 40000 (response_msg [Some native_addr])) None = None
   \<and> newResponseLog (udp6_frame 40000 53 query_msg) (Some (query_of 40000 53 False)) = None
   \<and> newResponseLog (udp6_frame 53 40000 (response_msg [Some native_addr, Some synthesised_addr]))
        (Some (query_of 53 40000 True))
       = Some (response_of 53 40000 (Some native_addr) True)
   \<and> newResponseLog (udp6_frame 53 40000 (response_msg [Some native_addr]))
        (Some (query_of 53 40000 True))
       = Some (response_of 53 40000 (Some native_addr) True)"
proof -
  let ?one = "udp6_frame 53 40000 (response_msg [Some native_addr])"
  let ?two = "udp6_frame 53 40000 (response_msg [Some native_addr, Some synthesised_addr])"
  let ?q = "Some (query_of 53 40000 True)"
  let ?r = "response_of 53 40000 (Some native_addr) True"
  have two: "newResponseLog ?two ?q = Some ?r"
    by (simp add: newResponseLog_Some native_addr_outside udp6_frame_def response_msg_def
          response_of_def query_of_def)
  have absent: "newResponseLog ?one None = None"
    using newResponseLog_needs_query_and_answer [where p = ?one] by blast
  have "LayerTypeDNS (udp6_frame 40000 53 query_msg) = Some query_msg \<and> Answers query_msg = []"
    by (simp add: udp6_frame_def query_msg_def)
  with newResponseLog_needs_query_and_answer
         [where p = "udp6_frame 40000 53 query_msg" and dns = query_msg
            and q = "Some (query_of 40000 53 False)"]
  have no_answer: "newResponseLog (udp6_frame 40000 53 query_msg) (Some (query_of 40000 53 False))
                     = None"
    by blast
  from newResponseLog_needs_query_and_answer [where p = ?two and q = ?q and r = ?r] two
  obtain dns' a as where
    d: "LayerTypeDNS ?two = Some dns'" "Answers dns' = a # as"
       "newResponseLog (?two\<lparr> LayerTypeDNS := Some (dns'\<lparr> Answers := [a] \<rparr>) \<rparr>) ?q = Some ?r"
    by blast
  from d(1,2) have "?two\<lparr> LayerTypeDNS := Some (dns'\<lparr> Answers := [a] \<rparr>) \<rparr> = ?one"
    by (auto simp add: udp6_frame_def response_msg_def)
  with d(3) have "newResponseLog ?one ?q = Some ?r" by simp
  with absent no_answer two show ?thesis by simp
qed

subsection \<open>The loop over the exporters\<close>

text \<open>
  Claim C8: for an emitted record (a pointer that is not \<^verbatim>\<open>nil\<close>) and a failure counter
  that stays at 5 or below whatever the database answers, the loop over the exporters
  runs to its end: every exporter of the slice is called, in the order of the slice,
  with that same record, so a failed \<^verbatim>\<open>INSERT\<close> does not keep the record from the
  console exporter, wherever the console exporter stands in the slice.
\<close>

theorem export_reaches_every_sink:
  assumes "non_nil log"
    and "unat (errCounter w) + length (filter (\<lambda>e. e = DBExporter) es) \<le> 5"
  shows "\<exists>w' new. export db es log w = Inr w'
           \<and> deliveries w' = deliveries w @ new
           \<and> map sink_of new = es \<and> map record_of new = map (\<lambda>e. log) es
           \<and> (StdExporter \<in> set es \<longrightarrow> Println log \<in> set new)"
proof -
  from export_below_threshold [OF assms, of db] obtain w' new where
    r: "export db es log w = Inr w'" "deliveries w' = deliveries w @ new"
       "map sink_of new = es" "map record_of new = map (\<lambda>e. log) es"
    by blast
  have "Println log \<in> set new" if "StdExporter \<in> set es"
  proof -
    from that r(3) obtain ev where ev: "ev \<in> set new" "sink_of ev = StdExporter"
      by (metis (no_types, lifting) image_iff set_map)
    from ev(1) have "record_of ev \<in> set (map record_of new)" by simp
    with r(4) have "record_of ev = log" by auto
    with ev(2) have "ev = Println log" by (cases ev) simp_all
    with ev(1) show ?thesis by simp
  qed
  with r have "export db es log w = Inr w'
           \<and> deliveries w' = deliveries w @ new
           \<and> map sink_of new = es \<and> map record_of new = map (\<lambda>e. log) es
           \<and> (StdExporter \<in> set es \<longrightarrow> Println log \<in> set new)"
    by simp
  then have "\<exists>new. export db es log w = Inr w'
           \<and> deliveries w' = deliveries w @ new
           \<and> map sink_of new = es \<and> map record_of new = map (\<lambda>e. log) es
           \<and> (StdExporter \<in> set es \<longrightarrow> Println log \<in> set new)"
    by (rule exI [where x = new])
  then show ?thesis by (rule exI [where x = w'])
qed

text \<open>
  A failing database in front of the console, and the slice that \<^verbatim>\<open>main\<close> builds, in
  which the console comes first.
\<close>

theorem export_reaches_every_sink_witness:
  "non_nil query_record
   \<and> export (\<lambda>k. False) [DBExporter, StdExporter] query_record start
       = Inr \<lparr> errCounter = 1, inserts = 1,
               deliveries = [Insert query_record False, Println query_record] \<rparr>
   \<and> main_exporters False True = [StdExporter, DBExporter]
   \<and> export (\<lambda>k. False) (main_exporters False True) query_record start
       = Inr \<lparr> errCounter = 1, inserts = 1,
               deliveries = [Println query_record, Insert query_record False] \<rparr>"
proof -
  have nn: "non_nil query_record" by (simp add: query_record_def)
  have below: "unat (errCounter start) + length (filter (\<lambda>e. e = DBExporter) [DBExporter, StdExporter]) \<le> 5"
    by (simp add: start_def)
  from export_reaches_every_sink [OF nn below, of "\<lambda>k. False"]
  have r: "\<exists>w'. export (\<lambda>k. False) [DBExporter, StdExporter] query_record start = Inr w'
             \<and> Println query_record \<in> set (deliveries w')"
    by (elim exE conjE) simp
  have "export (\<lambda>k. False) [DBExporter, StdExporter] query_record start
       = Inr \<lparr> errCounter = 1, inserts = 1,
               deliveries = [Insert query_record False, Println query_record] \<rparr>"
    using r by (simp add: start_def query_record_def dbExporter_def)
  moreover have "export (\<lambda>k. False) (main_exporters False True) query_record start
       = Inr \<lparr> errCounter = 1, inserts = 1,
               deliveries = [Println query_record, Insert query_record False] \<rparr>"
    by (simp add: main_exporters_def start_def query_record_def dbExporter_def)
  moreover have "main_exporters False True = [StdExporter, DBExporter]"
    by (simp add: main_exporters_def)
  ultimately show ?thesis using nn by simp
qed

subsection \<open>The has-answer flag\<close>

text \<open>
  Claim C9: on a query record \<^verbatim>\<open>hasAnswer\<close> says that the message has at least one
  answer; on a response record derived from a query record it says that the address
  of the first answer is not \<^verbatim>\<open>nil\<close>, whatever the flag of the query record was, and
  nothing else of the query record is changed.
\<close>

theorem hasAnswer_flags:
  "(newQueryLog String p (Some c) = Inr (Some q) \<longrightarrow>
      (\<exists>dns. LayerTypeDNS p = Some dns \<and> hasAnswer q = (length (Answers dns) \<ge> 1)))
   \<and> (newResponseLog p (Some q0) = Some r \<longrightarrow>
        (\<exists>dns a as. LayerTypeDNS p = Some dns \<and> Answers dns = a # as
           \<and> hasAnswer (QueryLog r) = (IP a \<noteq> None)
           \<and> QueryLog r = q0\<lparr> hasAnswer := IP a \<noteq> None \<rparr>))"
  by (auto simp add: newQueryLog_Some newResponseLog_Some Suc_le_eq split: option.splits list.splits)

text \<open>
  A response whose only answer has no address: the flag is true on the query record
  and false on the response record. And a query record with a false flag becomes a
  response record with a true one.
\<close>

theorem hasAnswer_flags_witness:
  "newQueryLog type_name (udp6_frame 53 40000 (response_msg [None])) (Some (meta_of 53 40000))
     = Inr (Some (query_of 53 40000 True))
   \<and> hasAnswer (query_of 53 40000 True)
   \<and> newResponseLog (udp6_frame 53 40000 (response_msg [None])) (Some (query_of 53 40000 True))
       = Some (response_of 53 40000 None True)
   \<and> \<not> hasAnswer (QueryLog (response_of 53 40000 None True))
   \<and> newResponseLog (udp6_frame 53 40000 (response_msg [Some native_addr]))
        (Some (query_of 53 40000 False))
       = Some (response_of 53 40000 (Some native_addr) True)
   \<and> hasAnswer (QueryLog (response_of 53 40000 (Some native_addr) True))"
proof -
  let ?p = "udp6_frame 53 40000 (response_msg [None])"
  have q: "newQueryLog type_name ?p (Some (meta_of 53 40000)) = Inr (Some (query_of 53 40000 True))"
    by (simp add: newQueryLog_Some udp6_frame_def response_msg_def question_AAAA_def
          type_name_def query_of_def)
  have r: "newResponseLog ?p (Some (query_of 53 40000 True))
             = Some (response_of 53 40000 None True)"
    by (simp add: newResponseLog_Some Contains_nat64_nil udp6_frame_def response_msg_def
          response_of_def query_of_def)
  have r2: "newResponseLog (udp6_frame 53 40000 (response_msg [Some native_addr]))
        (Some (query_of 53 40000 False))
       = Some (response_of 53 40000 (Some native_addr) True)"
    by (simp add: newResponseLog_Some native_addr_outside udp6_frame_def response_msg_def
          response_of_def query_of_def)
  from hasAnswer_flags [where p = ?p and String = type_name and c = "meta_of 53 40000"
      and q = "query_of 53 40000 True" and ?q0.0 = "query_of 53 40000 True"
      and r = "response_of 53 40000 None True"] q r
  have "hasAnswer (query_of 53 40000 True)
        \<and> \<not> hasAnswer (QueryLog (response_of 53 40000 None True))"
    by (auto simp add: udp6_frame_def response_msg_def)
  moreover have "hasAnswer (QueryLog (response_of 53 40000 (Some native_addr) True))"
    by (simp add: response_of_def query_of_def)
  ultimately show ?thesis using q r r2 by simp
qed

subsection \<open>An answer without an address\<close>

text \<open>
  Claim C10: when the first answer of the message has no address (\<^verbatim>\<open>nil\<close>),
  \<^verbatim>\<open>newResponseLog\<close> still returns a response record for a query record, with
  \<^verbatim>\<open>hasAnswer\<close> false and \<^verbatim>\<open>IPv6Ready\<close> true; \<^const>\<open>has_aaaa_answer\<close> is false for the
  frame whatever its metadata, and the frame is never emitted as a response record.
\<close>

theorem nil_answer_address:
  assumes "LayerTypeDNS p = Some dns" and "Answers dns = a # as" and "IP a = None"
  shows "(\<exists>r. newResponseLog p (Some q) = Some r \<and> AnsIP r = None
            \<and> \<not> hasAnswer (QueryLog r) \<and> IPv6Ready r)
         \<and> \<not> has_aaaa_answer c (newResponseLog p q')
         \<and> interceptor_frame String sniffFlag now p \<noteq> Inr (Some (ResponseLogPtr x))"
proof -
  have no: "\<not> has_aaaa_answer c' (newResponseLog p q'')" for c' q''
    using assms
    by (cases q'') (simp_all add: has_aaaa_answer_def newResponseLog_Some)
  have "\<exists>r. newResponseLog p (Some q) = Some r \<and> AnsIP r = None
            \<and> \<not> hasAnswer (QueryLog r) \<and> IPv6Ready r"
    using assms by (simp add: newResponseLog_Some Contains_nat64_nil)
  moreover have "interceptor_frame String sniffFlag now p \<noteq> Inr (Some (ResponseLogPtr x))"
    using interceptor_frame_ResponseLogPtr no by blast
  ultimately show ?thesis using no by blast
qed

text \<open>A response from port 53 whose only answer has no address is dropped.\<close>

theorem nil_answer_address_witness:
  "newResponseLog (udp6_frame 53 40000 (response_msg [None])) (Some (query_of 53 40000 True))
     = Some (response_of 53 40000 None True)
   \<and> \<not> hasAnswer (QueryLog (response_of 53 40000 None True))
   \<and> IPv6Ready (response_of 53 40000 None True)
   \<and> \<not> has_aaaa_answer (meta_of 53 40000) (Some (response_of 53 40000 None True))
   \<and> interceptor_frame type_name True 0 (udp6_frame 53 40000 (response_msg [None])) = Inr None"
proof -
  let ?p = "udp6_frame 53 40000 (response_msg [None])"
  have dns: "LayerTypeDNS ?p = Some (response_msg [None])"
    by (simp add: udp6_frame_def)
  have ans: "Answers (response_msg [None]) = \<lparr> IP = None \<rparr> # []"
    by (simp add: response_msg_def)
  have nil: "IP \<lparr> IP = None \<rparr> = None" by simp
  note t = nil_answer_address [OF dns ans nil, where q = "query_of 53 40000 True"
      and c = "meta_of 53 40000" and q' = "Some (query_of 53 40000 True)"
      and String = type_name and sniffFlag = True and now = 0
      and x = "Some (response_of 53 40000 None True)"]
  have r: "newResponseLog ?p (Some (query_of 53 40000 True))
             = Some (response_of 53 40000 None True)"
    by (simp add: newResponseLog_Some Contains_nat64_nil udp6_frame_def response_msg_def
          response_of_def query_of_def)
  from t r have "\<not> hasAnswer (QueryLog (response_of 53 40000 None True))
      \<and> IPv6Ready (response_of 53 40000 None True)
      \<and> \<not> has_aaaa_answer (meta_of 53 40000) (Some (response_of 53 40000 None True))"
    by auto
  moreover have c: "newInterceptorLogCommon 0 ?p = Some (meta_of 53 40000)"
    by (simp add: newInterceptorLogCommon_def udp6_frame_def meta_of_def)
  have q: "newQueryLog type_name ?p (Some (meta_of 53 40000)) = Inr (Some (query_of 53 40000 True))"
    by (simp add: newQueryLog_Some udp6_frame_def response_msg_def question_AAAA_def
          type_name_def query_of_def)
  have "interceptor_frame type_name True 0 ?p = Inr None"
    using c q r calculation
    by (simp add: interceptor_frame_Some select_log_def is_valid_query_def meta_of_def)
  ultimately show ?thesis using r by simp
qed

end
